theory Spec2Isabelle
  imports Main
begin

section \<open>The room relay of server.ts\<close>

text \<open>
  The file \<^verbatim>\<open>src/server.ts\<close> holds two variants of the server. Both define the same
  WebSocket relay (lines 114-154 and 275-314); they differ in the HTTP routes over the
  room store (variant A, lines 57-93: MongoDB only; variant B, lines 204-255: MongoDB
  with the \<^verbatim>\<open>localRooms\<close> fallback). The relay is modelled once, the routes once per
  variant.
\<close>

subsection \<open>Values of the runtime\<close>

text \<open>A \<^verbatim>\<open>WebSocket\<close> object is known by its identity; \<^verbatim>\<open>ws.readyState\<close> is one of four
  constants.\<close>

type_synonym conn = nat

datatype ready_state = CONNECTING | OPEN | CLOSING | CLOSED

text \<open>
  What a call of a library function answers in its model: a value, an exception, or
  \<open>Unmodelled\<close> where the text given to it lies outside what the model covers. The
  functions of an engine never answer \<open>Unmodelled\<close>; the models of \<^verbatim>\<open>JSON.parse\<close> and of
  \<^verbatim>\<open>new URL\<close> below do, on the texts they leave open.
\<close>

datatype 'a answer = Value 'a | Throws | Unmodelled

text \<open>
  Why a listener did not return: an exception left it (the \<^verbatim>\<open>SyntaxError\<close> of
  \<^verbatim>\<open>JSON.parse\<close>, the \<^verbatim>\<open>TypeError\<close> of \<^verbatim>\<open>new URL\<close>), or a library function was asked about a
  text its model leaves open (\<open>NotModelled\<close>), and then nothing is said of what the
  listener does.
\<close>

datatype halt = SyntaxError | TypeError | NotModelled

text \<open>What Mongoose raises from \<^verbatim>\<open>save\<close>, \<^verbatim>\<open>findOne\<close> and \<^verbatim>\<open>findOneAndUpdate\<close>.\<close>

datatype mongoose_error = ValidationError | DuplicateKey | BufferingTimedOut

text \<open>
  \<^verbatim>\<open>url.searchParams\<close>: the name-value pairs of the query in their order. \<^verbatim>\<open>get(name)\<close>
  answers the first value under the name, or \<^verbatim>\<open>null\<close> (here \<open>None\<close>).
\<close>

type_synonym searchParams = "(string \<times> string) list"

definition searchParams_get :: "searchParams \<Rightarrow> string \<Rightarrow> string option" where
  "searchParams_get ps name = map_of ps name"

text \<open>Truthiness of a value that is a string or \<^verbatim>\<open>null\<close>/\<^verbatim>\<open>undefined\<close>: the empty string is falsy.\<close>

definition truthy :: "string option \<Rightarrow> bool" where
  "truthy v = (case v of None \<Rightarrow> False | Some s \<Rightarrow> s \<noteq> [])"

text \<open>A \<^verbatim>\<open>Set\<close> keeps its members in insertion order, each once.\<close>

definition set_add :: "'a \<Rightarrow> 'a list \<Rightarrow> 'a list" where
  "set_add x xs = (if x \<in> set xs then xs else xs @ [x])"

definition set_delete :: "'a \<Rightarrow> 'a list \<Rightarrow> 'a list" where
  "set_delete x xs = filter (\<lambda>y. y \<noteq> x) xs"

subsection \<open>A model of \<^verbatim>\<open>JSON.parse\<close> and \<^verbatim>\<open>JSON.stringify\<close>\<close>

text \<open>
  The listeners below take \<^verbatim>\<open>JSON.parse\<close> and \<^verbatim>\<open>JSON.stringify\<close> as parameters, so what
  is proved of them holds for the functions of any engine. The concrete functions of
  this subsection serve the closed examples. They cover a fragment of JSON: white
  space, \<^verbatim>\<open>null\<close>, \<^verbatim>\<open>true\<close>, \<^verbatim>\<open>false\<close>, integers of magnitude up to \<open>2^53\<close>, strings of
  ASCII characters without escapes, arrays, and objects whose keys are not array
  indices (an engine moves such keys to the front). A text of the fragment is read to
  \<open>Value v\<close>; a text that is not JSON gives \<open>Throws\<close>, the \<^verbatim>\<open>SyntaxError\<close>; a text that
  leaves the fragment (a fraction, an exponent, an escape, a byte above \<open>0x7F\<close>, an
  index-like key, a number too large, or more nesting than the fuel allows) gives
  \<open>Unmodelled\<close>, and a listener given it ends in \<open>NotModelled\<close>.
\<close>

datatype json = JNull | JBool bool | JNumber int | JString string
  | JArray "json list" | JObject "(string \<times> json) list"

text \<open>The outcome of reading a prefix: the value with the rest of the text, a syntax error, or
  a text outside the fragment.\<close>

datatype 'a reading = Read 'a string | Bad | Beyond

definition is_ws :: "char \<Rightarrow> bool" where
  "is_ws ch = (ch = CHR 0x20 \<or> ch = CHR 0x09 \<or> ch = CHR 0x0A \<or> ch = CHR 0x0D)"

definition is_digit :: "char \<Rightarrow> bool" where
  "is_digit ch = (48 \<le> (of_char ch :: nat) \<and> (of_char ch :: nat) \<le> 57)"

definition skip_ws :: "string \<Rightarrow> string" where
  "skip_ws s = dropWhile is_ws s"

definition digits_value :: "string \<Rightarrow> int" where
  "digits_value ds = foldl (\<lambda>n ch. 10 * n + (of_char ch - 48)) 0 ds"

text \<open>The characters of a string after its opening quote (\<open>0x22\<close>), up to the closing one;
  \<open>0x5C\<close> is the backslash. A control character inside a string is a syntax error.\<close>

fun read_string :: "string \<Rightarrow> string \<Rightarrow> string reading" where
  "read_string acc [] = Bad"
| "read_string acc (ch # cs) =
     (if ch = CHR 0x22 then Read acc cs
      else if ch = CHR 0x5C then Beyond
      else if (of_char ch :: nat) < 0x20 then Bad
      else if (of_char ch :: nat) \<ge> 0x80 then Beyond
      else read_string (acc @ [ch]) cs)"

text \<open>The grammar of integers: a single \<open>0\<close>, or a nonzero digit followed by digits.\<close>

definition read_digits :: "string \<Rightarrow> string reading" where
  "read_digits s =
     (case s of
        [] \<Rightarrow> Bad
      | ch # cs \<Rightarrow>
          if ch = CHR ''0'' then Read [ch] cs
          else if is_digit ch then Read (ch # takeWhile is_digit cs) (dropWhile is_digit cs)
          else Bad)"

definition read_number :: "string \<Rightarrow> json reading" where
  "read_number s =
     (let neg = (case s of [] \<Rightarrow> False | ch # _ \<Rightarrow> ch = CHR ''-'');
          s1 = (if neg then tl s else s)
      in case read_digits s1 of
           Bad \<Rightarrow> Bad
         | Beyond \<Rightarrow> Beyond
         | Read ds rest \<Rightarrow>
             if (case rest of [] \<Rightarrow> False | ch # _ \<Rightarrow> ch = CHR ''.'' \<or> ch = CHR ''e'' \<or> ch = CHR ''E'')
               then Beyond
             else if digits_value ds > 2 ^ 53 then Beyond
             else Read (JNumber (if neg then - digits_value ds else digits_value ds)) rest)"

definition read_literal :: "string \<Rightarrow> json reading" where
  "read_literal s =
     (if take 4 s = ''true'' then Read (JBool True) (drop 4 s)
      else if take 5 s = ''false'' then Read (JBool False) (drop 5 s)
      else if take 4 s = ''null'' then Read JNull (drop 4 s)
      else Bad)"

text \<open>Defining a property: a key already present keeps its position and takes the new value.\<close>

fun obj_set :: "string \<Rightarrow> json \<Rightarrow> (string \<times> json) list \<Rightarrow> (string \<times> json) list" where
  "obj_set k v [] = [(k, v)]"
| "obj_set k v (m # ms) = (if fst m = k then (k, v) # ms else m # obj_set k v ms)"

definition index_like :: "string \<Rightarrow> bool" where
  "index_like k = (k \<noteq> [] \<and> list_all is_digit k)"

text \<open>Recursive descent with fuel; \<open>0x7B\<close>, \<open>0x7D\<close>, \<open>0x5B\<close>, \<open>0x5D\<close> are the braces and
  brackets.\<close>

fun parse_value :: "nat \<Rightarrow> string \<Rightarrow> json reading"
  and parse_elements :: "nat \<Rightarrow> json list \<Rightarrow> string \<Rightarrow> json reading"
  and parse_members :: "nat \<Rightarrow> (string \<times> json) list \<Rightarrow> string \<Rightarrow> json reading"
where
  "parse_value 0 s = Beyond"
| "parse_value (Suc n) s =
     (case skip_ws s of
        [] \<Rightarrow> Bad
      | ch # cs \<Rightarrow>
          if ch = CHR 0x7B then
            (case skip_ws cs of
               [] \<Rightarrow> Bad
             | ch' # cs' \<Rightarrow> if ch' = CHR 0x7D then Read (JObject []) cs' else parse_members n [] cs)
          else if ch = CHR 0x5B then
            (case skip_ws cs of
               [] \<Rightarrow> Bad
             | ch' # cs' \<Rightarrow> if ch' = CHR 0x5D then Read (JArray []) cs' else parse_elements n [] cs)
          else if ch = CHR 0x22 then
            (case read_string [] cs of
               Read str rest \<Rightarrow> Read (JString str) rest
             | Bad \<Rightarrow> Bad
             | Beyond \<Rightarrow> Beyond)
          else if ch = CHR ''-'' \<or> is_digit ch then read_number (ch # cs)
          else read_literal (ch # cs))"
| "parse_elements 0 acc s = Beyond"
| "parse_elements (Suc n) acc s =
     (case parse_value n s of
        Bad \<Rightarrow> Bad
      | Beyond \<Rightarrow> Beyond
      | Read v rest \<Rightarrow>
          (case skip_ws rest of
             [] \<Rightarrow> Bad
           | ch # cs \<Rightarrow>
               if ch = CHR '','' then parse_elements n (acc @ [v]) cs
               else if ch = CHR 0x5D then Read (JArray (acc @ [v])) cs
               else Bad))"
| "parse_members 0 acc s = Beyond"
| "parse_members (Suc n) acc s =
     (case skip_ws s of
        [] \<Rightarrow> Bad
      | ch # cs \<Rightarrow>
          if ch \<noteq> CHR 0x22 then Bad
          else
            (case read_string [] cs of
               Bad \<Rightarrow> Bad
             | Beyond \<Rightarrow> Beyond
             | Read k rest \<Rightarrow>
                 (case skip_ws rest of
                    [] \<Rightarrow> Bad
                  | ch1 # cs1 \<Rightarrow>
                      if ch1 \<noteq> CHR '':'' then Bad
                      else
                        (case parse_value n cs1 of
                           Bad \<Rightarrow> Bad
                         | Beyond \<Rightarrow> Beyond
                         | Read v rest2 \<Rightarrow>
                             if index_like k then Beyond
                             else
                               (case skip_ws rest2 of
                                  [] \<Rightarrow> Bad
                                | ch2 # cs2 \<Rightarrow>
                                    if ch2 = CHR '','' then parse_members n (obj_set k v acc) cs2
                                    else if ch2 = CHR 0x7D then Read (JObject (obj_set k v acc)) cs2
                                    else Bad)))))"

definition JSON_parse :: "string \<Rightarrow> json answer" where
  "JSON_parse s =
     (case parse_value (2 * length s + 2) s of
        Bad \<Rightarrow> Throws
      | Beyond \<Rightarrow> Unmodelled
      | Read v rest \<Rightarrow> if skip_ws rest = [] then Value v else Throws)"


text \<open>\<^verbatim>\<open>JSON.stringify\<close> on the values that \<open>JSON_parse\<close> answers: no white space, members in
  the order of the object, strings quoted as \<^verbatim>\<open>QuoteJSONString\<close> does.\<close>

function decimal :: "int \<Rightarrow> string" where
  "decimal n = (if n < 10 then [char_of (48 + n)] else decimal (n div 10) @ [char_of (48 + n mod 10)])"
  by pat_completeness auto
termination
  by (relation "measure nat") auto

definition hex_digit :: "nat \<Rightarrow> char" where
  "hex_digit n = (if n < 10 then char_of (48 + n) else char_of (87 + n))"

definition quote_char :: "char \<Rightarrow> string" where
  "quote_char ch =
     (if ch = CHR 0x08 then [CHR 0x5C, CHR ''b'']
      else if ch = CHR 0x09 then [CHR 0x5C, CHR ''t'']
      else if ch = CHR 0x0A then [CHR 0x5C, CHR ''n'']
      else if ch = CHR 0x0C then [CHR 0x5C, CHR ''f'']
      else if ch = CHR 0x0D then [CHR 0x5C, CHR ''r'']
      else if ch = CHR 0x22 then [CHR 0x5C, CHR 0x22]
      else if ch = CHR 0x5C then [CHR 0x5C, CHR 0x5C]
      else if (of_char ch :: nat) < 0x20
        then [CHR 0x5C, CHR ''u'', CHR ''0'', CHR ''0'',
              hex_digit (of_char ch div 16), hex_digit (of_char ch mod 16)]
      else [ch])"

definition quote :: "string \<Rightarrow> string" where
  "quote s = [CHR 0x22] @ concat (map quote_char s) @ [CHR 0x22]"

fun join :: "string list \<Rightarrow> string" where
  "join [] = []"
| "join [x] = x"
| "join (x # y # ys) = x @ CHR '','' # join (y # ys)"

fun JSON_stringify :: "json \<Rightarrow> string" where
  "JSON_stringify JNull = ''null''"
| "JSON_stringify (JBool b) = (if b then ''true'' else ''false'')"
| "JSON_stringify (JNumber n) = (if n < 0 then CHR ''-'' # decimal (- n) else decimal n)"
| "JSON_stringify (JString s) = quote s"
| "JSON_stringify (JArray vs) = [CHR 0x5B] @ join (map JSON_stringify vs) @ [CHR 0x5D]"
| "JSON_stringify (JObject ms) =
     [CHR 0x7B] @ join (map (\<lambda>m. quote (fst m) @ CHR '':'' # JSON_stringify (snd m)) ms) @ [CHR 0x7D]"

subsection \<open>A model of \<^verbatim>\<open>new URL(input, base).searchParams\<close>\<close>

text \<open>
  The connection listener takes \<^verbatim>\<open>new URL\<close> as a parameter as well. The concrete function
  of this subsection serves the closed examples and covers these calls:
  \<^item> the base is \<^verbatim>\<open>http://\<close> followed by a host of lower-case letters and, optionally, a
    colon and a port of one to four digits;
  \<^item> the input is empty (the URL is the base, without a query);
  \<^item> or the input is a path that starts with one slash, made of letters, digits and
    \<^verbatim>\<open>- . _ ~ /\<close>, optionally followed by \<^verbatim>\<open>?\<close> and a query made of letters, digits and
    \<^verbatim>\<open>- . _ ~ & =\<close>: the query is cut at each \<^verbatim>\<open>&\<close>, empty pieces are dropped, and a piece is
    cut at its first \<^verbatim>\<open>=\<close> into name and value (no \<^verbatim>\<open>=\<close>: the value is empty);
  \<^item> or the input is two or more slashes followed by nothing, by \<^verbatim>\<open>?\<close> or by \<^verbatim>\<open>#\<close>: after
    the slashes the parser expects a host, finds none, and \<^verbatim>\<open>new URL\<close> throws a
    \<^verbatim>\<open>TypeError\<close>.
  Every other call is \<open>Unmodelled\<close>.
\<close>

definition is_lower :: "char \<Rightarrow> bool" where
  "is_lower ch = (97 \<le> (of_char ch :: nat) \<and> (of_char ch :: nat) \<le> 122)"

definition is_alnum :: "char \<Rightarrow> bool" where
  "is_alnum ch =
     (is_digit ch \<or> is_lower ch \<or> (65 \<le> (of_char ch :: nat) \<and> (of_char ch :: nat) \<le> 90))"

definition is_unreserved :: "char \<Rightarrow> bool" where
  "is_unreserved ch =
     (is_alnum ch \<or> ch = CHR ''-'' \<or> ch = CHR ''.'' \<or> ch = CHR ''_'' \<or> ch = CHR ''~'')"

definition plain_base :: "string \<Rightarrow> bool" where
  "plain_base base =
     (take 7 base = ''http://'' \<and>
      (let host = takeWhile is_lower (drop 7 base);
           rest = dropWhile is_lower (drop 7 base)
       in host \<noteq> [] \<and>
          (rest = [] \<or>
           (take 1 rest = '':'' \<and> tl rest \<noteq> [] \<and> length (tl rest) \<le> 4
            \<and> list_all is_digit (tl rest)))))"

fun split_on :: "char \<Rightarrow> string \<Rightarrow> string list" where
  "split_on sep [] = [[]]"
| "split_on sep (ch # cs) =
     (if ch = sep then [] # split_on sep cs
      else (case split_on sep cs of
              [] \<Rightarrow> [[ch]]
            | piece # pieces \<Rightarrow> (ch # piece) # pieces))"

definition name_value :: "string \<Rightarrow> string \<times> string" where
  "name_value piece =
     (takeWhile (\<lambda>ch. ch \<noteq> CHR ''='') piece, drop 1 (dropWhile (\<lambda>ch. ch \<noteq> CHR ''='') piece))"

definition query_pairs :: "string \<Rightarrow> searchParams" where
  "query_pairs query = map name_value (filter (\<lambda>piece. piece \<noteq> []) (split_on CHR ''&'' query))"

definition URL_searchParams :: "string \<Rightarrow> string \<Rightarrow> searchParams answer" where
  "URL_searchParams input base =
     (if \<not> plain_base base then Unmodelled
      else if input = [] then Value []
      else if take 2 input = ''//'' then
        (case dropWhile (\<lambda>ch. ch = CHR ''/'') input of
           [] \<Rightarrow> Throws
         | ch # _ \<Rightarrow> if ch = CHR ''?'' \<or> ch = CHR ''#'' then Throws else Unmodelled)
      else if take 1 input = ''/'' then
        (let path = takeWhile (\<lambda>ch. ch \<noteq> CHR ''?'') input;
             query = drop 1 (dropWhile (\<lambda>ch. ch \<noteq> CHR ''?'') input)
         in if list_all (\<lambda>ch. is_unreserved ch \<or> ch = CHR ''/'') path
               \<and> list_all (\<lambda>ch. is_unreserved ch \<or> ch = CHR ''&'' \<or> ch = CHR ''='') query
            then Value (query_pairs query)
            else Unmodelled)
      else Unmodelled)"

subsection \<open>Rooms and the state of the process\<close>

text \<open>
  The three fields a create request carries, \<^verbatim>\<open>const { code, mode, data } = req.body\<close>; a
  field the body lacks is \<^verbatim>\<open>undefined\<close> (\<open>None\<close>). The object \<^verbatim>\<open>{ code, mode, data }\<close>
  kept in \<^verbatim>\<open>localRooms\<close> has the same shape. \<open>'d\<close> is the type of the values under \<^verbatim>\<open>data\<close>,
  opaque but for one of them, \<^verbatim>\<open>null\<close>, which the functions that tell it apart take as a
  parameter. A \<^verbatim>\<open>code\<close> or \<^verbatim>\<open>mode\<close> that is present is taken to be a string, as the schema
  names it.
\<close>

record 'd body =
  code :: "string option"
  mode :: "string option"
  data :: "'d option"

text \<open>A document of the \<^verbatim>\<open>Room\<close> collection (\<^verbatim>\<open>roomSchema\<close>); \<^verbatim>\<open>_id\<close> and \<^verbatim>\<open>__v\<close> are left out.\<close>

record 'd room = "'d body" +
  createdAt :: nat

text \<open>
  Everything the handlers read or write: the registry \<^verbatim>\<open>clients\<close>, the ready state of
  each socket, the closures registered by \<^verbatim>\<open>ws.on\<close> (each holds the \<^verbatim>\<open>code\<close> of its
  connection), the next socket the \<^verbatim>\<open>ws\<close> library will hand out, the calls of
  \<^verbatim>\<open>client.send\<close> so far, the MongoDB collection, \<^verbatim>\<open>mongoose.connection.readyState\<close>,
  the map \<^verbatim>\<open>localRooms\<close> and the lines written to the console.
\<close>

record 'd server =
  clients :: "string \<rightharpoonup> conn list"
  readyState :: "conn \<Rightarrow> ready_state"
  listeners :: "conn \<rightharpoonup> string"
  next_ws :: conn
  sent :: "(conn \<times> string) list"
  db :: "'d room list"
  connection_readyState :: nat
  localRooms :: "string option \<rightharpoonup> 'd body"
  console :: "string list"

subsection \<open>The WebSocket handlers (lines 118-154, 279-314)\<close>

text \<open>\<^verbatim>\<open>ws.close()\<close> starts the closing handshake: a socket that is not yet \<open>CLOSED\<close> is
  \<open>CLOSING\<close> from then on.\<close>

definition ws_close :: "conn \<Rightarrow> 'd server \<Rightarrow> 'd server" where
  "ws_close ws st =
     (if readyState st ws = CLOSED then st else st\<lparr>readyState := (readyState st)(ws := CLOSING)\<rparr>)"

text \<open>
  What the listener reads of the upgrade request: \<^verbatim>\<open>req.url\<close> and \<^verbatim>\<open>req.headers.host\<close>,
  either of which may be \<^verbatim>\<open>undefined\<close>. \<^verbatim>\<open>req.url || ""\<close> is the input of \<^verbatim>\<open>new URL\<close>, and the
  template \<^verbatim>\<open>`http://${req.headers.host}`\<close> its base (an \<^verbatim>\<open>undefined\<close> host prints as
  \<^verbatim>\<open>undefined\<close>).
\<close>

record request =
  req_url :: "string option"
  req_host :: "string option"

definition url_input :: "request \<Rightarrow> string" where
  "url_input req = (case req_url req of None \<Rightarrow> [] | Some u \<Rightarrow> u)"

definition url_base :: "request \<Rightarrow> string" where
  "url_base req = ''http://'' @ (case req_host req of None \<Rightarrow> ''undefined'' | Some h \<Rightarrow> h)"

text \<open>
  Lines 120-131 (281-292), the listener once \<^verbatim>\<open>new URL\<close> has returned: with a falsy code the
  socket is closed and the listener returns; otherwise the socket joins the set of its
  room and the two listeners of the socket are registered.
\<close>

definition register :: "searchParams \<Rightarrow> conn \<Rightarrow> 'd server \<Rightarrow> 'd server" where
  "register params ws st =
     (case searchParams_get params ''code'' of
        None \<Rightarrow> ws_close ws st
      | Some c \<Rightarrow>
          if \<not> truthy (Some c) then ws_close ws st
          else
            let cl = (if clients st c = None then (clients st)(c \<mapsto> []) else clients st);
                cl' = cl(c \<mapsto> set_add ws (the (cl c)))
            in st\<lparr>clients := cl', listeners := (listeners st)(ws \<mapsto> c)\<rparr>)"

text \<open>
  \<^verbatim>\<open>wss.on("connection", (ws, req) => ...)\<close>, lines 118-131 (279-292). Its first statement
  is \<^verbatim>\<open>new URL(req.url || "", `http://${req.headers.host}`)\<close>, outside any \<^verbatim>\<open>try\<close>: where
  \<^verbatim>\<open>new URL\<close> throws, the \<^verbatim>\<open>TypeError\<close> leaves the listener.
\<close>

definition on_connection ::
  "(string \<Rightarrow> string \<Rightarrow> searchParams answer) \<Rightarrow> request \<Rightarrow> conn \<Rightarrow> 'd server \<Rightarrow> halt + 'd server" where
  "on_connection new_URL req ws st =
     (case new_URL (url_input req) (url_base req) of
        Throws \<Rightarrow> Inl TypeError
      | Unmodelled \<Rightarrow> Inl NotModelled
      | Value params \<Rightarrow> Inr (register params ws st))"

text \<open>
  \<^verbatim>\<open>ws.on("message", ...)\<close> for the connection \<open>ws\<close> of room \<open>c\<close>. \<^verbatim>\<open>JSON.parse\<close> and
  \<^verbatim>\<open>JSON.stringify\<close> are parameters: \<open>parse\<close> answers \<open>Throws\<close> where \<^verbatim>\<open>JSON.parse\<close> throws
  a \<^verbatim>\<open>SyntaxError\<close>, which nothing in the listener catches. On a value that \<^verbatim>\<open>JSON.parse\<close>
  returned, \<^verbatim>\<open>JSON.stringify\<close> always answers a string, and \<^verbatim>\<open>send\<close> on an open socket does
  not throw. The result lists the calls of \<^verbatim>\<open>client.send\<close> in the order of \<^verbatim>\<open>forEach\<close>.
\<close>

definition on_message ::
  "(string \<Rightarrow> 'j answer) \<Rightarrow> ('j \<Rightarrow> string) \<Rightarrow> string \<Rightarrow> conn \<Rightarrow> string \<Rightarrow> 'd server
     \<Rightarrow> halt + (conn \<times> string) list" where
  "on_message parse stringify c ws message st =
     (case parse message of
        Throws \<Rightarrow> Inl SyntaxError
      | Unmodelled \<Rightarrow> Inl NotModelled
      | Value d \<Rightarrow>
          (case clients st c of
             None \<Rightarrow> Inr []
           | Some roomClients \<Rightarrow>
               Inr (map (\<lambda>client. (client, stringify d))
                      (filter (\<lambda>client. client \<noteq> ws \<and> readyState st client = OPEN) roomClients))))"

text \<open>\<^verbatim>\<open>ws.on("close", ...)\<close> for the connection \<open>ws\<close> of room \<open>c\<close>.\<close>

definition on_close :: "string \<Rightarrow> conn \<Rightarrow> 'd server \<Rightarrow> 'd server" where
  "on_close c ws st =
     (case clients st c of
        None \<Rightarrow> st
      | Some roomClients \<Rightarrow>
          let roomClients' = set_delete ws roomClients
          in if length roomClients' = 0 then st\<lparr>clients := (clients st)(c := None)\<rparr>
             else st\<lparr>clients := (clients st)(c \<mapsto> roomClients')\<rparr>)"

subsection \<open>The dispatch loop\<close>

text \<open>
  What the \<^verbatim>\<open>ws\<close> library emits: a new connection (a fresh socket, open, with the request
  of its handshake), a message on a socket, the start of a closing handshake on a socket
  (its ready state becomes \<open>CLOSING\<close>; no listener of the server runs), and the close of a
  socket. A message or a close on a socket without listeners runs no code of the server.
  An exception that leaves a listener is caught nowhere (the server registers no
  \<^verbatim>\<open>uncaughtException\<close> handler), so Node ends the process: \<open>Inl\<close>.
\<close>

datatype event = Connection request | Message conn string | Closing conn | Close conn

definition dispatch ::
  "(string \<Rightarrow> string \<Rightarrow> searchParams answer) \<Rightarrow> (string \<Rightarrow> 'j answer) \<Rightarrow> ('j \<Rightarrow> string)
     \<Rightarrow> event \<Rightarrow> 'd server \<Rightarrow> halt + 'd server" where
  "dispatch new_URL parse stringify ev st =
     (case ev of
        Connection req \<Rightarrow>
          let ws = next_ws st
          in on_connection new_URL req ws
               (st\<lparr>readyState := (readyState st)(ws := OPEN), next_ws := Suc ws\<rparr>)
      | Message ws message \<Rightarrow>
          (case listeners st ws of
             None \<Rightarrow> Inr st
           | Some c \<Rightarrow>
               (case on_message parse stringify c ws message st of
                  Inl err \<Rightarrow> Inl err
                | Inr out \<Rightarrow> Inr (st\<lparr>sent := sent st @ out\<rparr>)))
      | Closing ws \<Rightarrow> Inr (ws_close ws st)
      | Close ws \<Rightarrow>
          let st' = st\<lparr>readyState := (readyState st)(ws := CLOSED)\<rparr>
          in (case listeners st ws of
                None \<Rightarrow> Inr st'
              | Some c \<Rightarrow> Inr (on_close c ws st')))"

fun run ::
  "(string \<Rightarrow> string \<Rightarrow> searchParams answer) \<Rightarrow> (string \<Rightarrow> 'j answer) \<Rightarrow> ('j \<Rightarrow> string)
     \<Rightarrow> event list \<Rightarrow> 'd server \<Rightarrow> halt + 'd server" where
  "run new_URL parse stringify [] st = Inr st"
| "run new_URL parse stringify (ev # evs) st =
     (case dispatch new_URL parse stringify ev st of
        Inl err \<Rightarrow> Inl err
      | Inr st' \<Rightarrow> run new_URL parse stringify evs st')"

text \<open>The connections registered under a code: the members of its set, none when the registry
  has no entry.\<close>

definition members :: "'d server \<Rightarrow> string \<Rightarrow> conn list" where
  "members st c = (case clients st c of None \<Rightarrow> [] | Some roomClients \<Rightarrow> roomClients)"

text \<open>Every member of a room carries the listeners of that room, and every socket with
  listeners was handed out before the next one.\<close>

abbreviation one_room :: "'d server \<Rightarrow> bool" where
  "one_room st \<equiv>
     (\<forall>c ws. ws \<in> set (members st c) \<longrightarrow> listeners st ws = Some c)
     \<and> (\<forall>ws c. listeners st ws = Some c \<longrightarrow> ws < next_ws st)"

subsection \<open>The \<^verbatim>\<open>Room\<close> model of Mongoose\<close>

text \<open>
  \<^verbatim>\<open>roomSchema\<close> requires \<^verbatim>\<open>code\<close>, \<^verbatim>\<open>mode\<close> and \<^verbatim>\<open>data\<close>; a required string fails validation
  when it is missing or empty, the \<^verbatim>\<open>Object\<close> path when it is missing or \<^verbatim>\<open>null\<close>; \<open>null\<close>
  below is the value of \<open>'d\<close> that stands for \<^verbatim>\<open>null\<close>. \<^verbatim>\<open>code\<close> carries a
  unique index, so inserting a second document with a code raises the duplicate-key
  error. While the connection is not ready (\<^verbatim>\<open>readyState\<close> other than 1) Mongoose buffers an
  operation and raises once the buffering times out; the server never connects later, so
  that is the outcome here. \<open>now\<close> is the clock read by \<^verbatim>\<open>Date.now\<close>. The index on
  \<^verbatim>\<open>createdAt\<close> (\<^verbatim>\<open>expires\<close>) lets MongoDB delete a document once it is old enough; that
  happens between requests, and each route is modelled on whatever the collection holds
  when the request arrives.
\<close>

definition validate :: "'d \<Rightarrow> 'd body \<Rightarrow> bool" where
  "validate null b =
     (truthy (code b) \<and> truthy (mode b) \<and> data b \<noteq> None \<and> data b \<noteq> Some null)"

definition new_Room :: "nat \<Rightarrow> 'd body \<Rightarrow> 'd room" where
  "new_Room now b = \<lparr>code = code b, mode = mode b, data = data b, createdAt = now\<rparr>"

definition Room_save :: "'d \<Rightarrow> nat \<Rightarrow> 'd body \<Rightarrow> 'd server \<Rightarrow> mongoose_error + 'd server" where
  "Room_save null now b st =
     (if \<not> validate null b then Inl ValidationError
      else if connection_readyState st \<noteq> 1 then Inl BufferingTimedOut
      else if list_ex (\<lambda>r. code r = code b) (db st) then Inl DuplicateKey
      else Inr (st\<lparr>db := db st @ [new_Room now b]\<rparr>))"

definition Room_findOne :: "string \<Rightarrow> 'd server \<Rightarrow> mongoose_error + 'd room option" where
  "Room_findOne c st =
     (if connection_readyState st \<noteq> 1 then Inl BufferingTimedOut
      else Inr (find (\<lambda>r. code r = Some c) (db st)))"

fun update_first :: "('a \<Rightarrow> bool) \<Rightarrow> ('a \<Rightarrow> 'a) \<Rightarrow> 'a list \<Rightarrow> 'a list" where
  "update_first P f [] = []"
| "update_first P f (x # xs) = (if P x then f x # xs else x # update_first P f xs)"

text \<open>\<^verbatim>\<open>findOneAndUpdate\<close> changes the first document that matches, and none when none matches;
  that is no error.\<close>

definition Room_findOneAndUpdate ::
  "string \<Rightarrow> ('d room \<Rightarrow> 'd room) \<Rightarrow> 'd server \<Rightarrow> mongoose_error + 'd server" where
  "Room_findOneAndUpdate c upd st =
     (if connection_readyState st \<noteq> 1 then Inl BufferingTimedOut
      else Inr (st\<lparr>db := update_first (\<lambda>r. code r = Some c) upd (db st)\<rparr>))"

text \<open>A key whose value is \<^verbatim>\<open>undefined\<close> is dropped from an update (Mongoose 6 and later); a
  \<^verbatim>\<open>null\<close> is written as any other value.\<close>

definition set_data :: "'d option \<Rightarrow> 'd room \<Rightarrow> 'd room" where
  "set_data d r = (case d of None \<Rightarrow> r | Some v \<Rightarrow> r\<lparr>data := Some v\<rparr>)"

subsection \<open>The HTTP routes\<close>

text \<open>A response: the status and the JSON sent with it.\<close>

datatype 'd reply = Success | Error string | RoomDoc "'d room" | LocalRoom "'d body"

type_synonym 'd response = "nat \<times> 'd reply"

definition error_line :: "mongoose_error \<Rightarrow> string" where
  "error_line err =
     (case err of
        ValidationError \<Rightarrow> ''ValidationError''
      | DuplicateKey \<Rightarrow> ''E11000 duplicate key error''
      | BufferingTimedOut \<Rightarrow> ''buffering timed out'')"

text \<open>Variant A (lines 57-93): every route goes to MongoDB; an update refreshes \<^verbatim>\<open>createdAt\<close>.\<close>

definition post_rooms_A :: "'d \<Rightarrow> nat \<Rightarrow> 'd body \<Rightarrow> 'd server \<Rightarrow> 'd response \<times> 'd server" where
  "post_rooms_A null now b st =
     (case Room_save null now b st of
        Inr st' \<Rightarrow> ((200, Success), st')
      | Inl err \<Rightarrow>
          ((500, Error ''Failed to create room''), st\<lparr>console := console st @ [error_line err]\<rparr>))"

definition get_rooms_A :: "string \<Rightarrow> 'd server \<Rightarrow> 'd response \<times> 'd server" where
  "get_rooms_A c st =
     (case Room_findOne c st of
        Inr (Some r) \<Rightarrow> ((200, RoomDoc r), st)
      | Inr None \<Rightarrow> ((404, Error ''Room not found''), st)
      | Inl err \<Rightarrow> ((500, Error ''Server error''), st))"

definition put_rooms_A :: "nat \<Rightarrow> string \<Rightarrow> 'd option \<Rightarrow> 'd server \<Rightarrow> 'd response \<times> 'd server" where
  "put_rooms_A now c d st =
     (case Room_findOneAndUpdate c (\<lambda>r. (set_data d r)\<lparr>createdAt := now\<rparr>) st of
        Inr st' \<Rightarrow> ((200, Success), st')
      | Inl err \<Rightarrow> ((500, Error ''Failed to update room''), st))"

text \<open>Variant B (lines 204-255): MongoDB while \<^verbatim>\<open>mongoose.connection.readyState === 1\<close>,
  \<^verbatim>\<open>localRooms\<close> otherwise; an update leaves \<^verbatim>\<open>createdAt\<close> alone.\<close>

definition post_rooms_B :: "'d \<Rightarrow> nat \<Rightarrow> 'd body \<Rightarrow> 'd server \<Rightarrow> 'd response \<times> 'd server" where
  "post_rooms_B null now b st =
     (if connection_readyState st = 1 then
        (case Room_save null now b st of
           Inr st' \<Rightarrow> ((200, Success), st')
         | Inl err \<Rightarrow>
             ((500, Error ''Failed to create room''), st\<lparr>console := console st @ [error_line err]\<rparr>))
      else
        ((200, Success),
         st\<lparr>localRooms := (localRooms st)(code b \<mapsto> \<lparr>code = code b, mode = mode b, data = data b\<rparr>)\<rparr>))"

definition get_rooms_B :: "string \<Rightarrow> 'd server \<Rightarrow> 'd response \<times> 'd server" where
  "get_rooms_B c st =
     (if connection_readyState st = 1 then
        (case Room_findOne c st of
           Inr (Some r) \<Rightarrow> ((200, RoomDoc r), st)
         | Inr None \<Rightarrow> ((404, Error ''Room not found''), st)
         | Inl err \<Rightarrow> ((500, Error ''Server error''), st))
      else
        (case localRooms st (Some c) of
           Some r \<Rightarrow> ((200, LocalRoom r), st)
         | None \<Rightarrow> ((404, Error ''Room not found''), st)))"

definition put_rooms_B :: "string \<Rightarrow> 'd option \<Rightarrow> 'd server \<Rightarrow> 'd response \<times> 'd server" where
  "put_rooms_B c d st =
     (if connection_readyState st = 1 then
        (case Room_findOneAndUpdate c (set_data d) st of
           Inr st' \<Rightarrow> ((200, Success), st')
         | Inl err \<Rightarrow> ((500, Error ''Failed to update room''), st))
      else
        (case localRooms st (Some c) of
           Some r \<Rightarrow> ((200, Success), st\<lparr>localRooms := (localRooms st)(Some c \<mapsto> r\<lparr>data := d\<rparr>)\<rparr>)
         | None \<Rightarrow> ((200, Success), st)))"

subsection \<open>\<^verbatim>\<open>startServer\<close>\<close>

text \<open>
  The environment of a start: \<^verbatim>\<open>process.env.MONGODB_URI\<close> and whether
  \<^verbatim>\<open>mongoose.connect\<close> resolves. A process starts with an empty registry and an empty
  \<^verbatim>\<open>localRooms\<close>; the collection \<open>stored\<close> lives in MongoDB and is what earlier processes
  left there. A rejected \<^verbatim>\<open>connect\<close> is caught and logged.
\<close>

record env =
  MONGODB_URI :: "string option"
  connect_resolves :: bool

definition startServer_A :: "env \<Rightarrow> 'd room list \<Rightarrow> 'd server" where
  "startServer_A e stored =
     \<lparr>clients = Map.empty, readyState = (\<lambda>ws. CONNECTING), listeners = Map.empty, next_ws = 0,
      sent = [], db = stored,
      connection_readyState = (if truthy (MONGODB_URI e) \<and> connect_resolves e then 1 else 0),
      localRooms = Map.empty,
      console =
        [if truthy (MONGODB_URI e)
         then (if connect_resolves e then ''Connected to MongoDB Cloud''
               else ''MongoDB connection error:'')
         else ''MONGODB_URI not found. Persistence will not work on Render free tier.'',
         ''Server running on http://localhost:3000'']\<rparr>"

definition startServer_B :: "env \<Rightarrow> 'd room list \<Rightarrow> 'd server" where
  "startServer_B e stored =
     \<lparr>clients = Map.empty, readyState = (\<lambda>ws. CONNECTING), listeners = Map.empty, next_ws = 0,
      sent = [], db = stored,
      connection_readyState = (if truthy (MONGODB_URI e) \<and> connect_resolves e then 1 else 0),
      localRooms = Map.empty,
      console =
        [if truthy (MONGODB_URI e)
         then (if connect_resolves e then ''Connected to MongoDB Cloud''
               else ''MongoDB connection error:'')
         else ''MONGODB_URI not found. Using local memory fallback for testing.'',
         ''Server running on http://localhost:3000'']\<rparr>"

subsection \<open>A process with two rooms\<close>

text \<open>
  A start without \<^verbatim>\<open>MONGODB_URI\<close>, then four connections to \<^verbatim>\<open>localhost:3000\<close>: socket 0
  joins room \<^verbatim>\<open>ZZ99ZZ\<close>, sockets 1, 2 and 3 join room \<^verbatim>\<open>AB12CD\<close>, and socket 3 starts to
  close.
\<close>

definition no_store :: env where
  "no_store = \<lparr>MONGODB_URI = None, connect_resolves = False\<rparr>"

definition upgrade :: "string \<Rightarrow> request" where
  "upgrade target = \<lparr>req_url = Some target, req_host = Some ''localhost:3000''\<rparr>"

definition two_rooms_events :: "event list" where
  "two_rooms_events =
     [Connection (upgrade ''/?code=ZZ99ZZ''), Connection (upgrade ''/?code=AB12CD''),
      Connection (upgrade ''/?code=AB12CD''), Connection (upgrade ''/?code=AB12CD''), Closing 3]"

definition two_rooms :: "json server" where
  "two_rooms =
     \<lparr>clients = [''ZZ99ZZ'' \<mapsto> [0], ''AB12CD'' \<mapsto> [1, 2, 3]],
      readyState = (\<lambda>ws. CONNECTING)(0 := OPEN, 1 := OPEN, 2 := OPEN, 3 := CLOSING),
      listeners = [0 \<mapsto> ''ZZ99ZZ'', 1 \<mapsto> ''AB12CD'', 2 \<mapsto> ''AB12CD'', 3 \<mapsto> ''AB12CD''],
      next_ws = 4, sent = [], db = [], connection_readyState = 0, localRooms = Map.empty,
      console = [''MONGODB_URI not found. Using local memory fallback for testing.'',
                 ''Server running on http://localhost:3000'']\<rparr>"

text \<open>The state after a first connection whose query is \<^verbatim>\<open>?code=\<close>: socket 0 is closing, and
  nothing is registered.\<close>

definition refused :: "json server" where
  "refused =
     \<lparr>clients = Map.empty, readyState = (\<lambda>ws. CONNECTING)(0 := CLOSING), listeners = Map.empty,
      next_ws = 1, sent = [], db = [], connection_readyState = 0, localRooms = Map.empty,
      console = [''MONGODB_URI not found. Using local memory fallback for testing.'',
                 ''Server running on http://localhost:3000'']\<rparr>"

subsection \<open>Requests of the running example\<close>

text \<open>A start with a reachable MongoDB, the create request of client A, and a second create
  request under the same code.\<close>

definition with_store :: env where
  "with_store = \<lparr>MONGODB_URI = Some ''mongodb://cluster0/rooms'', connect_resolves = True\<rparr>"

definition room_AB :: "json body" where
  "room_AB =
     \<lparr>code = Some ''AB12CD'', mode = Some ''SINGLE'',
      data = Some (JObject [(''notes'', JString []), (''players'', JArray [JString ''p1''])])\<rparr>"

definition room_AB_again :: "json body" where
  "room_AB_again =
     \<lparr>code = Some ''AB12CD'', mode = Some ''COOP'',
      data = Some (JObject [(''notes'', JString ''overwritten'')])\<rparr>"

text \<open>The HTTP statuses that tell a client its request was at fault are the 4xx ones.\<close>

definition client_error :: "nat \<Rightarrow> bool" where
  "client_error status = (400 \<le> status \<and> status < 500)"

section \<open>Properties of the relay\<close>

subsection \<open>The running example\<close>

lemma url_ZZ:
  "URL_searchParams ''/?code=ZZ99ZZ'' ''http://localhost:3000'' = Value [(''code'', ''ZZ99ZZ'')]"
  by code_simp

lemma url_AB:
  "URL_searchParams ''/?code=AB12CD'' ''http://localhost:3000'' = Value [(''code'', ''AB12CD'')]"
  by code_simp

lemma url_empty_code:
  "URL_searchParams ''/?code='' ''http://localhost:3000'' = Value [(''code'', [])]"
  by code_simp

lemma url_no_code:
  "URL_searchParams ''/'' ''http://localhost:3000'' = Value []"
  by code_simp

lemma url_new_room:
  "URL_searchParams ''/?code=NEW001'' ''http://localhost:3000'' = Value [(''code'', ''NEW001'')]"
  by code_simp

lemma url_no_host:
  "URL_searchParams ''//?code=AB12CD'' ''http://localhost:3000'' = Throws"
  by code_simp

lemma upgrade_input [simp]: "url_input (upgrade target) = target"
  by (simp add: upgrade_def url_input_def)

lemma upgrade_base [simp]: "url_base (upgrade target) = ''http://localhost:3000''"
  by (simp add: upgrade_def url_base_def)

lemma two_rooms_reached:
  "run URL_searchParams JSON_parse JSON_stringify two_rooms_events (startServer_B no_store [])
     = Inr two_rooms"
  by (simp add: two_rooms_events_def two_rooms_def startServer_B_def no_store_def dispatch_def
      on_connection_def url_ZZ url_AB register_def searchParams_get_def truthy_def set_add_def
      ws_close_def Let_def eval_nat_numeral)

lemma notes_parsed:
  \<open>JSON_parse ''{ "type": "SYNC_NOTES", "payload": "suspect lied" }'' =
     Value (JObject [(''type'', JString ''SYNC_NOTES''), (''payload'', JString ''suspect lied'')])\<close>
  by code_simp

lemma notes_stringified:
  \<open>JSON_stringify (JObject [(''type'', JString ''SYNC_NOTES''), (''payload'', JString ''suspect lied'')])
     = ''{"type":"SYNC_NOTES","payload":"suspect lied"}''\<close>
  by code_simp

lemma canonical_parsed:
  \<open>JSON_parse ''{"type":"SYNC_NOTES","payload":"suspect lied"}'' =
     Value (JObject [(''type'', JString ''SYNC_NOTES''), (''payload'', JString ''suspect lied'')])\<close>
  by code_simp

lemma bad_parse: \<open>JSON_parse ''{bad'' = Throws\<close>
  by code_simp

subsection \<open>The handlers, field by field\<close>

lemma clients_ws_close [simp]: "clients (ws_close ws st) = clients st"
  by (simp add: ws_close_def)

lemma listeners_ws_close [simp]: "listeners (ws_close ws st) = listeners st"
  by (simp add: ws_close_def)

lemma next_ws_ws_close [simp]: "next_ws (ws_close ws st) = next_ws st"
  by (simp add: ws_close_def)

lemma readyState_ws_close: "readyState (ws_close ws st) ws \<noteq> OPEN"
  by (simp add: ws_close_def)

lemma members_ws_close [simp]: "members (ws_close ws st) = members st"
  by (simp add: members_def fun_eq_iff)

lemma set_add_not_Nil [simp]: "set_add x xs \<noteq> []"
  by (auto simp: set_add_def)

lemma set_set_add [simp]: "set (set_add x xs) = insert x (set xs)"
  by (auto simp: set_add_def)

lemma set_set_delete [simp]: "set (set_delete x xs) = set xs - {x}"
  by (auto simp: set_delete_def)

lemma clients_register:
  "clients (register params ws st) =
     (case searchParams_get params ''code'' of
        None \<Rightarrow> clients st
      | Some c \<Rightarrow> if c = [] then clients st else (clients st)(c \<mapsto> set_add ws (members st c)))"
  by (auto simp: register_def truthy_def members_def Let_def split: option.splits)

lemma listeners_register:
  "listeners (register params ws st) =
     (case searchParams_get params ''code'' of
        None \<Rightarrow> listeners st
      | Some c \<Rightarrow> if c = [] then listeners st else (listeners st)(ws \<mapsto> c))"
  by (auto simp: register_def truthy_def Let_def split: option.splits)

lemma members_register:
  "members (register params ws st) c' =
     (case searchParams_get params ''code'' of
        None \<Rightarrow> members st c'
      | Some c \<Rightarrow> if c \<noteq> [] \<and> c' = c then set_add ws (members st c) else members st c')"
  by (auto simp: members_def clients_register split: option.splits)

lemma register_falsy:
  assumes "\<not> truthy (searchParams_get params ''code'')"
  shows "register params ws st = ws_close ws st"
  using assms by (auto simp: register_def split: option.splits)

lemma on_connection_Value:
  assumes "new_URL (url_input req) (url_base req) = Value params"
  shows "on_connection new_URL req ws st = Inr (register params ws st)"
  using assms by (simp add: on_connection_def)

lemma on_connection_Inr:
  assumes "on_connection new_URL req ws st = Inr st'"
  shows "\<exists>params. new_URL (url_input req) (url_base req) = Value params
           \<and> st' = register params ws st"
  using assms by (auto simp: on_connection_def split: answer.splits)

lemma clients_on_close:
  "clients (on_close c ws st) =
     (case clients st c of
        None \<Rightarrow> clients st
      | Some rc \<Rightarrow> if set_delete ws rc = [] then (clients st)(c := None)
                   else (clients st)(c \<mapsto> set_delete ws rc))"
  by (auto simp: on_close_def Let_def split: option.splits)

lemma listeners_on_close [simp]: "listeners (on_close c ws st) = listeners st"
  by (simp add: on_close_def Let_def split: option.splits)

lemma next_ws_on_close [simp]: "next_ws (on_close c ws st) = next_ws st"
  by (simp add: on_close_def Let_def split: option.splits)

lemma members_on_close: "set (members (on_close c ws st) c') \<subseteq> set (members st c')"
  by (auto simp: members_def clients_on_close split: option.splits if_splits)

lemma db_on_close: "db (on_close c ws st) = db st \<and> localRooms (on_close c ws st) = localRooms st"
  by (simp add: on_close_def Let_def split: option.splits)

lemma dispatch_Connection:
  "dispatch new_URL parse stringify (Connection req) st =
     on_connection new_URL req (next_ws st)
       (st\<lparr>readyState := (readyState st)(next_ws st := OPEN), next_ws := Suc (next_ws st)\<rparr>)"
  by (simp add: dispatch_def Let_def)

lemma run_append:
  "run new_URL parse stringify (evs @ evs') st =
     (case run new_URL parse stringify evs st of
        Inl err \<Rightarrow> Inl err
      | Inr st' \<Rightarrow> run new_URL parse stringify evs' st')"
  by (induction evs arbitrary: st) (auto split: sum.splits)

lemma on_message_parsed:
  assumes "parse message = Value d"
  shows "on_message parse stringify c x message st =
           Inr (map (\<lambda>y. (y, stringify d))
                  (filter (\<lambda>y. y \<noteq> x \<and> readyState st y = OPEN) (members st c)))"
  using assms by (simp add: on_message_def members_def split: option.splits)

lemma on_message_unparsed:
  assumes "parse message = Throws"
  shows "on_message parse stringify c x message st = Inl SyntaxError"
  using assms by (simp add: on_message_def)

lemma on_message_recipients:
  assumes "on_message parse stringify c x message st = Inr out"
  shows "fst ` set out \<subseteq> set (members st c)"
  using assms by (auto simp: on_message_def members_def split: option.splits answer.splits)

lemma notes_relayed:
  \<open>on_message JSON_parse JSON_stringify ''AB12CD'' 1
      ''{ "type": "SYNC_NOTES", "payload": "suspect lied" }'' two_rooms
     = Inr [(2, ''{"type":"SYNC_NOTES","payload":"suspect lied"}'')]\<close>
  by (simp add: on_message_parsed [where parse = JSON_parse, OF notes_parsed] notes_stringified
      members_def two_rooms_def del: JSON_stringify.simps)

lemma canonical_relayed:
  \<open>on_message JSON_parse JSON_stringify ''AB12CD'' 1
      ''{"type":"SYNC_NOTES","payload":"suspect lied"}'' two_rooms
     = Inr [(2, ''{"type":"SYNC_NOTES","payload":"suspect lied"}'')]\<close>
  by (simp add: on_message_parsed [where parse = JSON_parse, OF canonical_parsed] notes_stringified
      members_def two_rooms_def del: JSON_stringify.simps)

subsection \<open>Who receives a message, and what\<close>

text \<open>
  C1. Let \<^verbatim>\<open>JSON.parse\<close> accept the message of connection \<open>x\<close> of room \<open>c\<close> and answer the
  payload \<open>d\<close>. Then the listener returns, and what it sends is exactly this: to each
  connection registered under \<open>c\<close> that is not \<open>x\<close> and whose ready state is \<open>OPEN\<close>, in
  the order of the set, one text, \<^verbatim>\<open>JSON.stringify\<close> of \<open>d\<close>. So these connections, and no
  others, are recipients, and \<open>x\<close> is none. The text is the payload written out: where
  the engine reads back what it writes for \<open>d\<close>, every recipient's text parses to the
  payload the sender's message parsed to; and where the sender's text is what the engine
  writes for \<open>d\<close>, every recipient receives the sender's text itself.
\<close>

theorem message_reaches_every_other_open_member:
  assumes "parse message = Value d"
  shows "\<exists>out. on_message parse stringify c x message st = Inr out
           \<and> out = map (\<lambda>y. (y, stringify d))
                     (filter (\<lambda>y. y \<noteq> x \<and> readyState st y = OPEN) (members st c))
           \<and> fst ` set out = {y \<in> set (members st c). y \<noteq> x \<and> readyState st y = OPEN}
           \<and> x \<notin> fst ` set out
           \<and> (parse (stringify d) = Value d \<longrightarrow> (\<forall>t \<in> snd ` set out. parse t = parse message))
           \<and> (message = stringify d \<longrightarrow> (\<forall>t \<in> snd ` set out. t = message))"
proof -
  let ?out = "map (\<lambda>y. (y, stringify d))
                (filter (\<lambda>y. y \<noteq> x \<and> readyState st y = OPEN) (members st c))"
  have sends: "on_message parse stringify c x message st = Inr ?out"
    using assms by (rule on_message_parsed)
  have who: "fst ` set ?out = {y \<in> set (members st c). y \<noteq> x \<and> readyState st y = OPEN}"
    by (auto simp: image_iff)
  have not_back: "x \<notin> fst ` set ?out"
    unfolding who by simp
  have what: "\<forall>t \<in> snd ` set ?out. t = stringify d"
    by auto
  have same_value: "parse (stringify d) = Value d \<longrightarrow> (\<forall>t \<in> snd ` set ?out. parse t = parse message)"
    using what assms by simp
  have same_text: "message = stringify d \<longrightarrow> (\<forall>t \<in> snd ` set ?out. t = message)"
    using what by simp
  from sends who not_back same_value same_text show ?thesis by blast
qed

theorem message_reaches_every_other_open_member_witness:
  \<open>JSON_parse ''{"type":"SYNC_NOTES","payload":"suspect lied"}'' =
     Value (JObject [(''type'', JString ''SYNC_NOTES''), (''payload'', JString ''suspect lied'')])
   \<and> ''{"type":"SYNC_NOTES","payload":"suspect lied"}'' =
       JSON_stringify (JObject [(''type'', JString ''SYNC_NOTES''), (''payload'', JString ''suspect lied'')])
   \<and> members two_rooms ''AB12CD'' = [1, 2, 3]
   \<and> readyState two_rooms 2 = OPEN \<and> readyState two_rooms 3 = CLOSING
   \<and> on_message JSON_parse JSON_stringify ''AB12CD'' 1
        ''{"type":"SYNC_NOTES","payload":"suspect lied"}'' two_rooms
      = Inr [(2, ''{"type":"SYNC_NOTES","payload":"suspect lied"}'')]
   \<and> (\<exists>out. on_message JSON_parse JSON_stringify ''AB12CD'' 1
              ''{"type":"SYNC_NOTES","payload":"suspect lied"}'' two_rooms = Inr out
          \<and> fst ` set out =
              {y \<in> set (members two_rooms ''AB12CD''). y \<noteq> 1 \<and> readyState two_rooms y = OPEN}
          \<and> 1 \<notin> fst ` set out)\<close>
proof -
  note inst = message_reaches_every_other_open_member [where parse = JSON_parse
      and stringify = JSON_stringify and c = "''AB12CD''" and x = 1 and st = two_rooms,
      OF canonical_parsed]
  have room: "members two_rooms ''AB12CD'' = [1, 2, 3]
      \<and> readyState two_rooms 2 = OPEN \<and> readyState two_rooms 3 = CLOSING"
    by (simp add: members_def two_rooms_def)
  from canonical_parsed notes_stringified room canonical_relayed inst show ?thesis by auto
qed

subsection \<open>Rooms do not leak into each other\<close>

lemma register_one_room:
  assumes "one_room st" and "next_ws st = Suc ws"
    and "\<forall>y c. listeners st y = Some c \<longrightarrow> y < ws"
  shows "one_room (register params ws st)"
proof (cases "truthy (searchParams_get params ''code'')")
  case False
  then have "register params ws st = ws_close ws st"
    by (rule register_falsy)
  with assms(1) show ?thesis by simp
next
  case True
  then obtain c where c: "searchParams_get params ''code'' = Some c" "c \<noteq> []"
    by (auto simp: truthy_def split: option.splits)
  have mem: "\<And>c'. members (register params ws st) c' =
      (if c' = c then set_add ws (members st c) else members st c')"
    using c by (simp add: members_register)
  have lis: "listeners (register params ws st) = (listeners st)(ws \<mapsto> c)"
    using c by (simp add: listeners_register)
  have nxt: "next_ws (register params ws st) = Suc ws"
    using c assms(2) by (simp add: register_def truthy_def Let_def)
  have fresh: "\<And>c'. ws \<notin> set (members st c')"
    using assms(1,3) by (metis less_irrefl)
  show ?thesis
  proof (intro conjI allI impI)
    fix c' y
    assume "y \<in> set (members (register params ws st) c')"
    then show "listeners (register params ws st) y = Some c'"
      using assms(1) fresh by (auto simp: mem lis split: if_splits)
  next
    fix y c'
    assume "listeners (register params ws st) y = Some c'"
    then show "y < next_ws (register params ws st)"
      using assms(3) by (auto simp: lis nxt less_Suc_eq split: if_splits)
  qed
qed

lemma on_close_one_room:
  assumes "one_room st"
  shows "one_room (on_close c ws st)"
  using assms members_on_close [of c ws st] by (simp add: subset_iff)

lemma dispatch_one_room:
  assumes "one_room st" and "dispatch new_URL parse stringify ev st = Inr st'"
  shows "one_room st'"
proof (cases ev)
  case (Connection req)
  let ?st = "st\<lparr>readyState := (readyState st)(next_ws st := OPEN), next_ws := Suc (next_ws st)\<rparr>"
  from Connection assms(2) have "on_connection new_URL req (next_ws st) ?st = Inr st'"
    by (simp add: dispatch_Connection)
  then obtain params where st': "st' = register params (next_ws st) ?st"
    using on_connection_Inr by blast
  have m: "members ?st = members st" by (simp add: members_def fun_eq_iff)
  have "one_room ?st" using assms(1) by (simp add: m less_Suc_eq)
  moreover have "next_ws ?st = Suc (next_ws st)" by simp
  moreover have "\<forall>y c. listeners ?st y = Some c \<longrightarrow> y < next_ws st" using assms(1) by simp
  ultimately have "one_room (register params (next_ws st) ?st)"
    by (rule register_one_room)
  with st' show ?thesis by simp
next
  case (Message ws message)
  have "\<And>out. members (st\<lparr>sent := out\<rparr>) = members st" by (simp add: members_def fun_eq_iff)
  with Message assms show ?thesis
    by (auto simp: dispatch_def split: option.splits sum.splits)
next
  case (Closing ws)
  with assms show ?thesis by (auto simp: dispatch_def)
next
  case (Close ws)
  let ?st = "st\<lparr>readyState := (readyState st)(ws := CLOSED)\<rparr>"
  have m: "members ?st = members st" by (simp add: members_def fun_eq_iff)
  have inv: "one_room ?st" using assms(1) by (simp add: m)
  show ?thesis
  proof (cases "listeners st ws")
    case None
    with Close assms(2) inv show ?thesis by (auto simp: dispatch_def Let_def)
  next
    case (Some c')
    from inv have "one_room (on_close c' ws ?st)" by (rule on_close_one_room)
    with Close Some assms(2) show ?thesis by (simp add: dispatch_def Let_def)
  qed
qed

lemma run_one_room:
  assumes "one_room st0" and "run new_URL parse stringify evs st0 = Inr st"
  shows "one_room st"
  using assms
proof (induction evs arbitrary: st0)
  case Nil
  then show ?case by simp
next
  case (Cons ev evs)
  from Cons.prems(2) obtain st1 where
    step: "dispatch new_URL parse stringify ev st0 = Inr st1"
    and rest: "run new_URL parse stringify evs st1 = Inr st"
    by (auto split: sum.splits)
  from Cons.prems(1) step have "one_room st1" by (rule dispatch_one_room)
  from this rest show ?case by (rule Cons.IH)
qed

text \<open>
  C2. In a process that started with an empty registry (as \<open>startServer_A\<close> and
  \<open>startServer_B\<close> both leave it) and has handled any events since, a message handled
  for a connection of room \<open>c1\<close> goes to members of \<open>c1\<close> only, and no member of another
  room \<open>c2\<close> is among its recipients: the broadcast walks the set of \<open>c1\<close>, and no socket
  is in the sets of two codes.
\<close>

theorem rooms_are_isolated:
  assumes "clients st0 = Map.empty" and "listeners st0 = Map.empty"
    and "run new_URL parse stringify evs st0 = Inr st"
    and "c1 \<noteq> c2"
    and "on_message parse stringify c1 x message st = Inr out"
  shows "fst ` set out \<subseteq> set (members st c1) \<and> fst ` set out \<inter> set (members st c2) = {}"
proof -
  have "one_room st0"
    using assms(1,2) by (simp add: members_def)
  from this assms(3) have inv: "one_room st" by (rule run_one_room)
  have sub: "fst ` set out \<subseteq> set (members st c1)"
    using assms(5) by (rule on_message_recipients)
  have "set (members st c1) \<inter> set (members st c2) = {}"
  proof (rule ccontr)
    assume "set (members st c1) \<inter> set (members st c2) \<noteq> {}"
    then obtain y where "y \<in> set (members st c1)" and "y \<in> set (members st c2)" by blast
    with inv have "listeners st y = Some c1" and "listeners st y = Some c2" by blast+
    with assms(4) show False by simp
  qed
  with sub show ?thesis by blast
qed

theorem rooms_are_isolated_witness:
  \<open>clients (startServer_B no_store ([] :: json room list)) = Map.empty
   \<and> listeners (startServer_B no_store ([] :: json room list)) = Map.empty
   \<and> run URL_searchParams JSON_parse JSON_stringify two_rooms_events (startServer_B no_store [])
      = Inr two_rooms
   \<and> ''AB12CD'' \<noteq> ''ZZ99ZZ''
   \<and> on_message JSON_parse JSON_stringify ''AB12CD'' 1
        ''{ "type": "SYNC_NOTES", "payload": "suspect lied" }'' two_rooms
      = Inr [(2, ''{"type":"SYNC_NOTES","payload":"suspect lied"}'')]
   \<and> fst ` set [(2 :: conn, ''{"type":"SYNC_NOTES","payload":"suspect lied"}'')]
        \<subseteq> set (members two_rooms ''AB12CD'')
   \<and> fst ` set [(2 :: conn, ''{"type":"SYNC_NOTES","payload":"suspect lied"}'')]
        \<inter> set (members two_rooms ''ZZ99ZZ'') = {}\<close>
proof -
  have c: "clients (startServer_B no_store ([] :: json room list)) = Map.empty"
    by (simp add: startServer_B_def)
  have l: "listeners (startServer_B no_store ([] :: json room list)) = Map.empty"
    by (simp add: startServer_B_def)
  have ne: "''AB12CD'' \<noteq> ''ZZ99ZZ''" by simp
  from c l two_rooms_reached ne notes_relayed
    rooms_are_isolated [OF c l two_rooms_reached ne notes_relayed]
  show ?thesis by blast
qed

subsection \<open>A message that is not JSON\<close>

text \<open>
  C3. The claim asks that a message that is not well-formed JSON be dropped while the
  connection stays open. The listener calls \<^verbatim>\<open>JSON.parse\<close> outside any \<^verbatim>\<open>try\<close>: on the text
  \<^verbatim>\<open>{bad\<close> from socket 1 of room \<^verbatim>\<open>AB12CD\<close> it throws, the exception leaves the listener, and
  the process ends with it; the well-formed message of socket 2 that follows is never
  handled.
\<close>

theorem malformed_message_ends_process:
  \<open>JSON_parse ''{bad'' = Throws
   \<and> on_message JSON_parse JSON_stringify ''AB12CD'' 1 ''{bad'' two_rooms = Inl SyntaxError
   \<and> run URL_searchParams JSON_parse JSON_stringify
        (two_rooms_events @ [Message 1 ''{bad'', Message 2 ''{}''])
        (startServer_B no_store ([] :: json room list)) = Inl SyntaxError\<close>
proof -
  have handler: "on_message JSON_parse JSON_stringify ''AB12CD'' 1 ''{bad'' two_rooms = Inl SyntaxError"
    using bad_parse by (rule on_message_unparsed)
  have "listeners two_rooms 1 = Some ''AB12CD''"
    by (simp add: two_rooms_def)
  with handler have "dispatch URL_searchParams JSON_parse JSON_stringify (Message 1 ''{bad'') two_rooms
      = Inl SyntaxError"
    by (simp add: dispatch_def)
  then have "run URL_searchParams JSON_parse JSON_stringify
        (two_rooms_events @ [Message 1 ''{bad'', Message 2 ''{}''])
        (startServer_B no_store ([] :: json room list)) = Inl SyntaxError"
    by (simp add: run_append two_rooms_reached)
  with bad_parse handler show ?thesis by simp
qed

subsection \<open>The handshake\<close>

text \<open>
  C4, as stated, fails where the parameter is present and empty: for the request target
  \<^verbatim>\<open>/?code=\<close> the URL parses, \<^verbatim>\<open>get("code")\<close> is the empty string, and \<^verbatim>\<open>!code\<close> treats it as
  missing. The first connection of a process, with that target, is closed and not
  registered.
\<close>

theorem present_but_empty_code_refused:
  "URL_searchParams (url_input (upgrade ''/?code='')) (url_base (upgrade ''/?code=''))
     = Value [(''code'', [])]
   \<and> searchParams_get [(''code'', [])] ''code'' = Some []
   \<and> dispatch URL_searchParams JSON_parse JSON_stringify (Connection (upgrade ''/?code=''))
        (startServer_B no_store []) = Inr refused
   \<and> members refused [] = [] \<and> listeners refused 0 = None \<and> readyState refused 0 = CLOSING"
  by (simp add: url_empty_code searchParams_get_def dispatch_Connection on_connection_def
      register_def truthy_def ws_close_def startServer_B_def no_store_def refused_def members_def)

text \<open>For the record, a request target on which \<^verbatim>\<open>new URL\<close> throws: the connection is neither
  registered nor closed by the listener, the exception leaves it and the process ends.
  The statement after it says nothing of such targets.\<close>

lemma hostless_target_ends_process:
  "dispatch URL_searchParams JSON_parse JSON_stringify (Connection (upgrade ''//?code=AB12CD''))
     two_rooms = Inl TypeError"
  by (simp add: dispatch_Connection on_connection_def url_no_host)

text \<open>
  C4, amended. Take a new connection whose request \<^verbatim>\<open>new URL\<close> parses. If its query has
  no code parameter, or an empty one, the connection is closed at once and the registry
  and the listeners stay as they were; if it has a non-empty code, the connection is
  registered under that code, gets its listeners, and stays open.
\<close>

theorem connection_registered_iff_code_nonempty:
  assumes "new_URL (url_input req) (url_base req) = Value params"
  shows "\<exists>st'. dispatch new_URL parse stringify (Connection req) st = Inr st'
     \<and> (\<not> truthy (searchParams_get params ''code'') \<longrightarrow>
           readyState st' (next_ws st) = CLOSING \<and> clients st' = clients st
           \<and> listeners st' = listeners st)
     \<and> (\<forall>c. searchParams_get params ''code'' = Some c \<and> c \<noteq> [] \<longrightarrow>
           next_ws st \<in> set (members st' c) \<and> listeners st' (next_ws st) = Some c
           \<and> readyState st' (next_ws st) = OPEN)"
proof -
  let ?ws = "next_ws st"
  let ?st = "st\<lparr>readyState := (readyState st)(?ws := OPEN), next_ws := Suc ?ws\<rparr>"
  let ?st' = "register params ?ws ?st"
  have step: "dispatch new_URL parse stringify (Connection req) st = Inr ?st'"
    using assms by (simp add: dispatch_Connection on_connection_Value)
  have refuse: "readyState ?st' ?ws = CLOSING \<and> clients ?st' = clients st \<and> listeners ?st' = listeners st"
    if "\<not> truthy (searchParams_get params ''code'')"
    using that by (simp add: register_falsy ws_close_def)
  have admit: "?ws \<in> set (members ?st' c) \<and> listeners ?st' ?ws = Some c \<and> readyState ?st' ?ws = OPEN"
    if code: "searchParams_get params ''code'' = Some c \<and> c \<noteq> []" for c
  proof -
    have "?ws \<in> set (members ?st' c)"
      using code by (simp add: members_register)
    moreover have "listeners ?st' ?ws = Some c"
      using code by (simp add: listeners_register)
    moreover have "readyState ?st' ?ws = OPEN"
      using code by (simp add: register_def truthy_def Let_def)
    ultimately show ?thesis by blast
  qed
  from step refuse admit show ?thesis by blast
qed

theorem connection_registered_iff_code_nonempty_witness:
  "URL_searchParams (url_input (upgrade ''/'')) (url_base (upgrade ''/'')) = Value []
   \<and> \<not> truthy (searchParams_get [] ''code'')
   \<and> (\<exists>st'. dispatch URL_searchParams JSON_parse JSON_stringify (Connection (upgrade ''/'')) two_rooms
               = Inr st'
          \<and> readyState st' (next_ws two_rooms) = CLOSING \<and> clients st' = clients two_rooms
          \<and> listeners st' = listeners two_rooms)
   \<and> URL_searchParams (url_input (upgrade ''/?code=AB12CD'')) (url_base (upgrade ''/?code=AB12CD''))
       = Value [(''code'', ''AB12CD'')]
   \<and> searchParams_get [(''code'', ''AB12CD'')] ''code'' = Some ''AB12CD'' \<and> ''AB12CD'' \<noteq> []
   \<and> (\<exists>st'. dispatch URL_searchParams JSON_parse JSON_stringify
               (Connection (upgrade ''/?code=AB12CD'')) two_rooms = Inr st'
          \<and> next_ws two_rooms \<in> set (members st' ''AB12CD'')
          \<and> listeners st' (next_ws two_rooms) = Some ''AB12CD''
          \<and> readyState st' (next_ws two_rooms) = OPEN)"
proof -
  have u0: "URL_searchParams (url_input (upgrade ''/'')) (url_base (upgrade ''/'')) = Value []"
    by (simp add: url_no_code)
  have no: "\<not> truthy (searchParams_get [] ''code'')"
    by (simp add: searchParams_get_def truthy_def)
  have u1: "URL_searchParams (url_input (upgrade ''/?code=AB12CD''))
      (url_base (upgrade ''/?code=AB12CD'')) = Value [(''code'', ''AB12CD'')]"
    by (simp add: url_AB)
  have yes: "searchParams_get [(''code'', ''AB12CD'')] ''code'' = Some ''AB12CD'' \<and> ''AB12CD'' \<noteq> []"
    by (simp add: searchParams_get_def)
  note closed = connection_registered_iff_code_nonempty [where new_URL = URL_searchParams
      and parse = JSON_parse and stringify = JSON_stringify and st = two_rooms, OF u0]
  note opened = connection_registered_iff_code_nonempty [where new_URL = URL_searchParams
      and parse = JSON_parse and stringify = JSON_stringify and st = two_rooms, OF u1]
  from u0 no closed have first: "\<exists>st'. dispatch URL_searchParams JSON_parse JSON_stringify
        (Connection (upgrade ''/'')) two_rooms = Inr st'
      \<and> readyState st' (next_ws two_rooms) = CLOSING \<and> clients st' = clients two_rooms
      \<and> listeners st' = listeners two_rooms"
    by blast
  from u1 yes opened have second: "\<exists>st'. dispatch URL_searchParams JSON_parse JSON_stringify
        (Connection (upgrade ''/?code=AB12CD'')) two_rooms = Inr st'
      \<and> next_ws two_rooms \<in> set (members st' ''AB12CD'')
      \<and> listeners st' (next_ws two_rooms) = Some ''AB12CD''
      \<and> readyState st' (next_ws two_rooms) = OPEN"
    by blast
  from u0 no first u1 yes second show ?thesis by blast
qed

text \<open>
  C10. A handshake whose code parameter is present and empty is handled exactly as one
  without the parameter: the listener returns the same state, which is the state after
  \<^verbatim>\<open>ws.close()\<close> alone, with the registry and the listeners untouched and the socket no
  longer open. Whenever the listener does register something, the code was a non-empty
  string.
\<close>

theorem empty_code_is_no_code:
  assumes "new_URL (url_input req) (url_base req) = Value params"
    and "searchParams_get params ''code'' = Some []"
    and "new_URL (url_input req0) (url_base req0) = Value params0"
    and "searchParams_get params0 ''code'' = None"
  shows "on_connection new_URL req ws st = on_connection new_URL req0 ws st
       \<and> dispatch new_URL parse stringify (Connection req) st
           = dispatch new_URL parse stringify (Connection req0) st
       \<and> on_connection new_URL req ws st = Inr (ws_close ws st)
       \<and> clients (ws_close ws st) = clients st
       \<and> listeners (ws_close ws st) = listeners st
       \<and> readyState (ws_close ws st) ws \<noteq> OPEN
       \<and> (\<forall>r st'. on_connection new_URL r ws st = Inr st'
                \<and> (clients st' \<noteq> clients st \<or> listeners st' \<noteq> listeners st)
              \<longrightarrow> (\<exists>p c. new_URL (url_input r) (url_base r) = Value p
                       \<and> searchParams_get p ''code'' = Some c \<and> c \<noteq> []))"
proof -
  have a: "on_connection new_URL req ws' st' = Inr (ws_close ws' st')" for ws' and st' :: "'a server"
    using assms(1,2) by (simp add: on_connection_Value register_falsy truthy_def)
  have b: "on_connection new_URL req0 ws' st' = Inr (ws_close ws' st')" for ws' and st' :: "'a server"
    using assms(3,4) by (simp add: on_connection_Value register_falsy truthy_def)
  have only: "\<exists>p c. new_URL (url_input r) (url_base r) = Value p
                       \<and> searchParams_get p ''code'' = Some c \<and> c \<noteq> []"
    if ret: "on_connection new_URL r ws st = Inr st'
              \<and> (clients st' \<noteq> clients st \<or> listeners st' \<noteq> listeners st)"
    for r st'
  proof -
    from ret obtain p where p: "new_URL (url_input r) (url_base r) = Value p"
      and st': "st' = register p ws st"
      using on_connection_Inr by blast
    from ret st' have "\<exists>c. searchParams_get p ''code'' = Some c \<and> c \<noteq> []"
      by (auto simp: clients_register listeners_register split: option.splits if_splits)
    with p show ?thesis by blast
  qed
  have same: "on_connection new_URL req ws st = on_connection new_URL req0 ws st
       \<and> dispatch new_URL parse stringify (Connection req) st
           = dispatch new_URL parse stringify (Connection req0) st
       \<and> on_connection new_URL req ws st = Inr (ws_close ws st)
       \<and> clients (ws_close ws st) = clients st
       \<and> listeners (ws_close ws st) = listeners st
       \<and> readyState (ws_close ws st) ws \<noteq> OPEN"
    using a b by (simp add: dispatch_Connection readyState_ws_close)
  have nonempty: "\<forall>r st'. on_connection new_URL r ws st = Inr st'
                \<and> (clients st' \<noteq> clients st \<or> listeners st' \<noteq> listeners st)
              \<longrightarrow> (\<exists>p c. new_URL (url_input r) (url_base r) = Value p
                       \<and> searchParams_get p ''code'' = Some c \<and> c \<noteq> [])"
    using only by blast
  from same nonempty show ?thesis by blast
qed

theorem empty_code_is_no_code_witness:
  "URL_searchParams (url_input (upgrade ''/?code='')) (url_base (upgrade ''/?code=''))
     = Value [(''code'', [])]
   \<and> searchParams_get [(''code'', [])] ''code'' = Some []
   \<and> URL_searchParams (url_input (upgrade ''/'')) (url_base (upgrade ''/'')) = Value []
   \<and> searchParams_get [] ''code'' = None
   \<and> on_connection URL_searchParams (upgrade ''/?code='') 4 two_rooms
       = on_connection URL_searchParams (upgrade ''/'') 4 two_rooms
   \<and> on_connection URL_searchParams (upgrade ''/?code='') 4 two_rooms = Inr (ws_close 4 two_rooms)
   \<and> clients (ws_close 4 two_rooms) = clients two_rooms
   \<and> readyState (ws_close 4 two_rooms) 4 \<noteq> OPEN"
proof -
  have u: "URL_searchParams (url_input (upgrade ''/?code='')) (url_base (upgrade ''/?code=''))
     = Value [(''code'', [])]"
    by (simp add: url_empty_code)
  have a: "searchParams_get [(''code'', [])] ''code'' = Some []" by (simp add: searchParams_get_def)
  have u0: "URL_searchParams (url_input (upgrade ''/'')) (url_base (upgrade ''/'')) = Value []"
    by (simp add: url_no_code)
  have b: "searchParams_get [] ''code'' = None" by (simp add: searchParams_get_def)
  note inst = empty_code_is_no_code [where new_URL = URL_searchParams and ws = 4 and st = two_rooms
      and parse = JSON_parse and stringify = JSON_stringify, OF u a u0 b]
  from u a u0 b inst show ?thesis by blast
qed

subsection \<open>What is forwarded\<close>

text \<open>
  C7, as stated, fails on a text that \<^verbatim>\<open>JSON.stringify\<close> would not have written: the
  listener sends \<^verbatim>\<open>JSON.stringify(JSON.parse(message))\<close>, not the text it received. The
  message of socket 1 below has blanks after its punctuation; socket 2 receives it without
  them.
\<close>

theorem relay_rewrites_text:
  \<open>JSON_parse ''{ "type": "SYNC_NOTES", "payload": "suspect lied" }'' =
     Value (JObject [(''type'', JString ''SYNC_NOTES''), (''payload'', JString ''suspect lied'')])
   \<and> on_message JSON_parse JSON_stringify ''AB12CD'' 1
        ''{ "type": "SYNC_NOTES", "payload": "suspect lied" }'' two_rooms
      = Inr [(2, ''{"type":"SYNC_NOTES","payload":"suspect lied"}'')]
   \<and> ''{"type":"SYNC_NOTES","payload":"suspect lied"}''
      \<noteq> ''{ "type": "SYNC_NOTES", "payload": "suspect lied" }''\<close>
  using notes_parsed notes_relayed by simp

text \<open>
  C7, amended. For a message that \<^verbatim>\<open>JSON.parse\<close> accepts, every recipient receives the
  same text, \<^verbatim>\<open>JSON.stringify\<close> of the parsed value; when the sender's text is already
  what \<^verbatim>\<open>JSON.stringify\<close> writes for that value (as the texts of the client in \<^verbatim>\<open>App.tsx\<close>
  are), the recipients receive exactly the sender's text.
\<close>

theorem recipients_get_stringified_value:
  assumes "parse message = Value d"
  shows "\<exists>out. on_message parse stringify c x message st = Inr out
           \<and> snd ` set out \<subseteq> {stringify d}
           \<and> (message = stringify d \<longrightarrow> snd ` set out \<subseteq> {message})"
proof -
  let ?out = "map (\<lambda>y. (y, stringify d))
                (filter (\<lambda>y. y \<noteq> x \<and> readyState st y = OPEN) (members st c))"
  have sends: "on_message parse stringify c x message st = Inr ?out"
    using assms by (rule on_message_parsed)
  have "snd ` set ?out \<subseteq> {stringify d}" by auto
  with sends show ?thesis by auto
qed

theorem recipients_get_stringified_value_witness:
  \<open>JSON_parse ''{"type":"SYNC_NOTES","payload":"suspect lied"}'' =
     Value (JObject [(''type'', JString ''SYNC_NOTES''), (''payload'', JString ''suspect lied'')])
   \<and> ''{"type":"SYNC_NOTES","payload":"suspect lied"}'' =
       JSON_stringify (JObject [(''type'', JString ''SYNC_NOTES''), (''payload'', JString ''suspect lied'')])
   \<and> (\<exists>out. on_message JSON_parse JSON_stringify ''AB12CD'' 1
               ''{"type":"SYNC_NOTES","payload":"suspect lied"}'' two_rooms = Inr out
          \<and> snd ` set out \<subseteq> {''{"type":"SYNC_NOTES","payload":"suspect lied"}''})\<close>
proof -
  note inst = recipients_get_stringified_value [where parse = JSON_parse and stringify = JSON_stringify
      and c = "''AB12CD''" and x = 1 and st = two_rooms, OF canonical_parsed]
  from canonical_parsed notes_stringified inst show ?thesis by auto
qed

subsection \<open>The registry holds no empty set\<close>

lemma register_keeps_nonempty:
  assumes "\<forall>c. clients st c \<noteq> Some []"
  shows "\<forall>c. clients (register params ws st) c \<noteq> Some []"
  using assms by (auto simp: clients_register split: option.splits)

lemma on_connection_keeps_nonempty:
  assumes "\<forall>c. clients st c \<noteq> Some []" and "on_connection new_URL req ws st = Inr st'"
  shows "\<forall>c. clients st' c \<noteq> Some []"
proof -
  from assms(2) obtain params where "st' = register params ws st"
    using on_connection_Inr by blast
  with assms(1) show ?thesis by (simp add: register_keeps_nonempty)
qed

lemma on_close_keeps_nonempty:
  assumes "\<forall>c. clients st c \<noteq> Some []"
  shows "\<forall>c. clients (on_close c' ws st) c \<noteq> Some []"
  using assms by (auto simp: clients_on_close split: option.splits)

lemma dispatch_keeps_nonempty:
  assumes "\<forall>c. clients st c \<noteq> Some []" and "dispatch new_URL parse stringify ev st = Inr st'"
  shows "\<forall>c. clients st' c \<noteq> Some []"
proof (cases ev)
  case (Connection req)
  let ?st = "st\<lparr>readyState := (readyState st)(next_ws st := OPEN), next_ws := Suc (next_ws st)\<rparr>"
  have "\<forall>c. clients ?st c \<noteq> Some []" using assms(1) by simp
  moreover from Connection assms(2) have "on_connection new_URL req (next_ws st) ?st = Inr st'"
    by (simp add: dispatch_Connection)
  ultimately show ?thesis by (rule on_connection_keeps_nonempty)
next
  case (Message ws message)
  with assms show ?thesis
    by (auto simp: dispatch_def split: option.splits sum.splits)
next
  case (Closing ws)
  with assms show ?thesis by (auto simp: dispatch_def)
next
  case (Close ws)
  let ?st = "st\<lparr>readyState := (readyState st)(ws := CLOSED)\<rparr>"
  have inv: "\<forall>c. clients ?st c \<noteq> Some []" using assms(1) by simp
  show ?thesis
  proof (cases "listeners st ws")
    case None
    with Close assms show ?thesis by (auto simp: dispatch_def Let_def)
  next
    case (Some c')
    from inv have "\<forall>c. clients (on_close c' ws ?st) c \<noteq> Some []"
      by (rule on_close_keeps_nonempty)
    with Close Some assms(2) show ?thesis by (simp add: dispatch_def Let_def)
  qed
qed

lemma run_keeps_nonempty:
  assumes "\<forall>c. clients st0 c \<noteq> Some []" and "run new_URL parse stringify evs st0 = Inr st"
  shows "\<forall>c. clients st c \<noteq> Some []"
  using assms
proof (induction evs arbitrary: st0)
  case Nil
  then show ?case by simp
next
  case (Cons ev evs)
  from Cons.prems(2) obtain st1 where
    step: "dispatch new_URL parse stringify ev st0 = Inr st1"
    and rest: "run new_URL parse stringify evs st1 = Inr st"
    by (auto split: sum.splits)
  from Cons.prems(1) step have "\<forall>c. clients st1 c \<noteq> Some []"
    by (rule dispatch_keeps_nonempty)
  from this rest show ?case by (rule Cons.IH)
qed

lemma entry_only_by_first_connection:
  assumes "on_connection new_URL req ws st = Inr st'" and "clients st c = None"
  shows "clients st' c = None \<or> clients st' c = Some [ws]"
proof -
  from assms(1) obtain params where "st' = register params ws st"
    using on_connection_Inr by blast
  with assms(2) show ?thesis
    by (auto simp: clients_register members_def set_add_def split: option.splits)
qed

lemma close_makes_no_entry:
  assumes "clients st c = None"
  shows "clients (on_close c' ws st) c = None"
  using assms by (auto simp: clients_on_close split: option.splits)

lemma close_of_last_deletes:
  assumes "set_delete ws (members st c) = []"
  shows "clients (on_close c ws st) c = None"
  using assms by (auto simp: clients_on_close members_def split: option.splits)

text \<open>
  C9. Let the registry hold no empty set at some moment (an empty registry at the start
  does), and let the process handle any events from there. Then the registry holds no
  empty set afterwards, and none after a further connection or close. A code without
  an entry gets one only from a connection, and the entry then holds that connection
  alone; a close creates none. When the close of a connection leaves no member under
  its code, the entry of the code is gone. The close handler leaves the MongoDB
  collection and \<^verbatim>\<open>localRooms\<close> as they were.
\<close>

theorem registry_holds_no_empty_set:
  assumes "\<forall>c. clients st0 c \<noteq> Some []" and "run new_URL parse stringify evs st0 = Inr st"
  shows "(\<forall>c. clients st c \<noteq> Some [])
       \<and> (\<forall>st'. on_connection new_URL req ws st = Inr st' \<longrightarrow> (\<forall>c. clients st' c \<noteq> Some []))
       \<and> (\<forall>c. clients (on_close c' ws' st) c \<noteq> Some [])
       \<and> (\<forall>st' c. on_connection new_URL req ws st = Inr st' \<and> clients st c = None \<longrightarrow>
              clients st' c = None \<or> clients st' c = Some [ws])
       \<and> (\<forall>c. clients st c = None \<longrightarrow> clients (on_close c' ws' st) c = None)
       \<and> (set_delete ws' (members st c') = [] \<longrightarrow> clients (on_close c' ws' st) c' = None)
       \<and> db (on_close c' ws' st) = db st \<and> localRooms (on_close c' ws' st) = localRooms st"
proof -
  have inv: "\<forall>c. clients st c \<noteq> Some []"
    using assms by (rule run_keeps_nonempty)
  have conn: "\<forall>st'. on_connection new_URL req ws st = Inr st' \<longrightarrow> (\<forall>c. clients st' c \<noteq> Some [])"
    using inv on_connection_keeps_nonempty by blast
  have clos: "\<forall>c. clients (on_close c' ws' st) c \<noteq> Some []"
    using inv by (rule on_close_keeps_nonempty)
  have first: "\<forall>st' c. on_connection new_URL req ws st = Inr st' \<and> clients st c = None \<longrightarrow>
              clients st' c = None \<or> clients st' c = Some [ws]"
    using entry_only_by_first_connection by blast
  from inv conn clos first show ?thesis
    using close_makes_no_entry [of st _ c' ws'] close_of_last_deletes [of ws' st c']
      db_on_close [of c' ws' st]
    by blast
qed

lemma new_room_joined:
  "on_connection URL_searchParams (upgrade ''/?code=NEW001'') 4 two_rooms
     = Inr (two_rooms\<lparr>clients := (clients two_rooms)(''NEW001'' \<mapsto> [4]),
                       listeners := (listeners two_rooms)(4 \<mapsto> ''NEW001'')\<rparr>)"
  by (simp add: on_connection_def url_new_room register_def searchParams_get_def truthy_def
      set_add_def two_rooms_def Let_def)

theorem registry_holds_no_empty_set_witness:
  "(\<forall>c. clients (startServer_B no_store ([] :: json room list)) c \<noteq> Some [])
   \<and> run URL_searchParams JSON_parse JSON_stringify two_rooms_events (startServer_B no_store [])
      = Inr two_rooms
   \<and> (\<forall>c. clients two_rooms c \<noteq> Some [])
   \<and> clients two_rooms ''NEW001'' = None
   \<and> on_connection URL_searchParams (upgrade ''/?code=NEW001'') 4 two_rooms
       = Inr (two_rooms\<lparr>clients := (clients two_rooms)(''NEW001'' \<mapsto> [4]),
                         listeners := (listeners two_rooms)(4 \<mapsto> ''NEW001'')\<rparr>)
   \<and> set_delete 0 (members two_rooms ''ZZ99ZZ'') = []
   \<and> clients (on_close ''ZZ99ZZ'' 0 two_rooms) ''ZZ99ZZ'' = None
   \<and> db (on_close ''ZZ99ZZ'' 0 two_rooms) = db two_rooms"
proof -
  have start: "\<forall>c. clients (startServer_B no_store ([] :: json room list)) c \<noteq> Some []"
    by (simp add: startServer_B_def)
  note inst = registry_holds_no_empty_set [OF start two_rooms_reached,
      where req = "upgrade ''/?code=NEW001''" and ws = 4 and ws' = 0 and c' = "''ZZ99ZZ''"]
  have new: "clients two_rooms ''NEW001'' = None"
    by (simp add: two_rooms_def)
  have last: "set_delete 0 (members two_rooms ''ZZ99ZZ'') = []"
    by (simp add: set_delete_def members_def two_rooms_def)
  from start two_rooms_reached inst new new_room_joined last show ?thesis by blast
qed

section \<open>Properties of the room store\<close>

subsection \<open>A code that is stored already\<close>

lemma update_first_no_match:
  assumes "\<not> list_ex P xs"
  shows "update_first P f xs = xs"
  using assms by (induction xs) auto

lemma find_no_match:
  assumes "\<not> list_ex P xs"
  shows "find P xs = None"
  using assms by (induction xs) auto

lemma Room_save_duplicate:
  assumes "connection_readyState st = 1" and "list_ex (\<lambda>r. code r = Some c) (db st)"
    and "code b = Some c"
  shows "\<exists>err. Room_save null now b st = Inl err"
  using assms by (simp add: Room_save_def)

text \<open>
  C5, amended. While MongoDB is connected, a create request whose code is the code of a
  stored room fails in both variants: the reply is status 500 with
  \<^verbatim>\<open>{ error: "Failed to create room" }\<close>, the one reply of the route for every failure, and
  the collection is left as it was, so the stored room is not replaced. Nothing is said
  here of a create request while variant B runs on \<^verbatim>\<open>localRooms\<close>.
\<close>

theorem duplicate_code_refused_by_store:
  assumes "connection_readyState st = 1" and "list_ex (\<lambda>r. code r = Some c) (db st)"
    and "code b = Some c"
  shows "fst (post_rooms_A null now b st) = (500, Error ''Failed to create room'')
       \<and> db (snd (post_rooms_A null now b st)) = db st
       \<and> fst (post_rooms_B null now b st) = (500, Error ''Failed to create room'')
       \<and> db (snd (post_rooms_B null now b st)) = db st
       \<and> localRooms (snd (post_rooms_B null now b st)) = localRooms st"
proof -
  from Room_save_duplicate [OF assms, of null now]
  obtain err where "Room_save null now b st = Inl err" by blast
  with assms(1) show ?thesis
    by (simp add: post_rooms_A_def post_rooms_B_def)
qed

lemma seeded_A:
  "post_rooms_A JNull 100 room_AB (startServer_A with_store []) =
     ((200, Success), (startServer_A with_store [])\<lparr>db := [new_Room 100 room_AB]\<rparr>)"
  by (simp add: post_rooms_A_def Room_save_def validate_def truthy_def room_AB_def
      startServer_A_def with_store_def)

lemma seeded_B:
  "post_rooms_B JNull 100 room_AB (startServer_B no_store []) =
     ((200, Success), (startServer_B no_store [])\<lparr>localRooms := [Some ''AB12CD'' \<mapsto> room_AB]\<rparr>)"
  by (simp add: post_rooms_B_def room_AB_def startServer_B_def no_store_def)

text \<open>
  C5, as stated, fails twice. Against MongoDB the second create request under
  \<^verbatim>\<open>AB12CD\<close> is refused, but with status 500, which is no client error, and with the
  message of every other failure. On \<^verbatim>\<open>localRooms\<close> (variant B without MongoDB) the second
  create request is answered with success and its room takes the place of the first.
\<close>

theorem duplicate_create_is_server_error_or_overwrites:
  "db (snd (post_rooms_A JNull 100 room_AB (startServer_A with_store []))) = [new_Room 100 room_AB]
   \<and> post_rooms_A JNull 200 room_AB_again (snd (post_rooms_A JNull 100 room_AB (startServer_A with_store [])))
      = ((500, Error ''Failed to create room''),
         (startServer_A with_store [])
           \<lparr>db := [new_Room 100 room_AB],
            console := console (startServer_A with_store ([] :: json room list))
                       @ [''E11000 duplicate key error'']\<rparr>)
   \<and> \<not> client_error 500
   \<and> localRooms (snd (post_rooms_B JNull 100 room_AB (startServer_B no_store []))) (Some ''AB12CD'') = Some room_AB
   \<and> fst (post_rooms_B JNull 200 room_AB_again (snd (post_rooms_B JNull 100 room_AB (startServer_B no_store []))))
      = (200, Success)
   \<and> localRooms (snd (post_rooms_B JNull 200 room_AB_again (snd (post_rooms_B JNull 100 room_AB (startServer_B no_store [])))))
        (Some ''AB12CD'') = Some room_AB_again
   \<and> room_AB_again \<noteq> room_AB"
proof -
  have dup: "post_rooms_A JNull 200 room_AB_again ((startServer_A with_store [])\<lparr>db := [new_Room 100 room_AB]\<rparr>)
      = ((500, Error ''Failed to create room''),
         (startServer_A with_store [])
           \<lparr>db := [new_Room 100 room_AB],
            console := console (startServer_A with_store ([] :: json room list))
                       @ [''E11000 duplicate key error'']\<rparr>)"
    by (simp add: post_rooms_A_def Room_save_def validate_def truthy_def room_AB_def room_AB_again_def
        new_Room_def error_line_def startServer_A_def with_store_def)
  have over: "post_rooms_B JNull 200 room_AB_again
        ((startServer_B no_store [])\<lparr>localRooms := [Some ''AB12CD'' \<mapsto> room_AB]\<rparr>)
      = ((200, Success),
         (startServer_B no_store [])\<lparr>localRooms := [Some ''AB12CD'' \<mapsto> room_AB_again]\<rparr>)"
    by (simp add: post_rooms_B_def room_AB_again_def startServer_B_def no_store_def)
  have diff: "room_AB_again \<noteq> room_AB"
    by (simp add: room_AB_again_def room_AB_def)
  from dup over diff show ?thesis
    by (simp add: seeded_A seeded_B client_error_def)
qed

theorem duplicate_code_refused_by_store_witness:
  "connection_readyState (snd (post_rooms_A JNull 100 room_AB (startServer_A with_store []))) = 1
   \<and> list_ex (\<lambda>r. code r = Some ''AB12CD'') (db (snd (post_rooms_A JNull 100 room_AB (startServer_A with_store []))))
   \<and> code room_AB_again = Some ''AB12CD''
   \<and> fst (post_rooms_A JNull 200 room_AB_again (snd (post_rooms_A JNull 100 room_AB (startServer_A with_store []))))
      = (500, Error ''Failed to create room'')
   \<and> db (snd (post_rooms_A JNull 200 room_AB_again (snd (post_rooms_A JNull 100 room_AB (startServer_A with_store [])))))
      = db (snd (post_rooms_A JNull 100 room_AB (startServer_A with_store [])))
   \<and> fst (post_rooms_B JNull 200 room_AB_again (snd (post_rooms_A JNull 100 room_AB (startServer_A with_store []))))
      = (500, Error ''Failed to create room'')"
proof -
  let ?st = "snd (post_rooms_A JNull 100 room_AB (startServer_A with_store ([] :: json room list)))"
  have a: "connection_readyState ?st = 1"
    unfolding seeded_A by (simp add: startServer_A_def with_store_def truthy_def)
  have b: "list_ex (\<lambda>r. code r = Some ''AB12CD'') (db ?st)"
    unfolding seeded_A by (simp add: new_Room_def room_AB_def)
  have c: "code room_AB_again = Some ''AB12CD''"
    by (simp add: room_AB_again_def)
  from a b c duplicate_code_refused_by_store [OF a b c, of JNull 200] show ?thesis by blast
qed


subsection \<open>A code that is not stored\<close>

lemma get_missing_durable:
  assumes "connection_readyState st = 1" and "\<not> list_ex (\<lambda>r. code r = Some c) (db st)"
  shows "get_rooms_A c st = ((404, Error ''Room not found''), st)"
    and "get_rooms_B c st = ((404, Error ''Room not found''), st)"
  using assms by (simp_all add: get_rooms_A_def get_rooms_B_def Room_findOne_def find_no_match)

lemma put_missing_durable:
  assumes "connection_readyState st = 1" and "\<not> list_ex (\<lambda>r. code r = Some c) (db st)"
  shows "put_rooms_A now c d st = ((200, Success), st)"
    and "put_rooms_B c d st = ((200, Success), st)"
  using assms
  by (simp_all add: put_rooms_A_def put_rooms_B_def Room_findOneAndUpdate_def update_first_no_match)

lemma missing_fallback:
  assumes "connection_readyState st \<noteq> 1" and "localRooms st (Some c) = None"
  shows "get_rooms_B c st = ((404, Error ''Room not found''), st)"
    and "put_rooms_B c d st = ((200, Success), st)"
  using assms by (simp_all add: get_rooms_B_def put_rooms_B_def)

text \<open>
  C6, amended. For a code that no stored room has, reading fails with status 404
  \<^verbatim>\<open>{ error: "Room not found" }\<close> and changes nothing; updating changes nothing either,
  creates no room, and is answered with success. This holds against the connected
  MongoDB in both variants, and on \<^verbatim>\<open>localRooms\<close> in variant B.
\<close>

theorem missing_code_read_fails_update_succeeds:
  "(connection_readyState st = 1 \<and> \<not> list_ex (\<lambda>r. code r = Some c) (db st) \<longrightarrow>
       get_rooms_A c st = ((404, Error ''Room not found''), st)
     \<and> get_rooms_B c st = ((404, Error ''Room not found''), st)
     \<and> put_rooms_A now c d st = ((200, Success), st)
     \<and> put_rooms_B c d st = ((200, Success), st))
   \<and> (connection_readyState st \<noteq> 1 \<and> localRooms st (Some c) = None \<longrightarrow>
       get_rooms_B c st = ((404, Error ''Room not found''), st)
     \<and> put_rooms_B c d st = ((200, Success), st))"
  by (simp add: get_missing_durable put_missing_durable missing_fallback)

text \<open>
  C6, as stated, fails for the update: on a store without any room, the update of
  \<^verbatim>\<open>NOPE00\<close> is answered with status 200 \<^verbatim>\<open>{ success: true }\<close>, against MongoDB as well as on
  \<^verbatim>\<open>localRooms\<close>. \<^verbatim>\<open>findOneAndUpdate\<close> answers \<^verbatim>\<open>null\<close> without raising when nothing matches,
  and neither route looks at what was found before it replies.
\<close>

theorem update_of_missing_code_reports_success:
  "db (startServer_A with_store ([] :: json room list)) = []
   \<and> connection_readyState (startServer_A with_store ([] :: json room list)) = 1
   \<and> put_rooms_A 300 ''NOPE00'' (Some (JString ''second'')) (startServer_A with_store [])
      = ((200, Success), startServer_A with_store [])
   \<and> \<not> client_error 200
   \<and> localRooms (startServer_B no_store ([] :: json room list)) (Some ''NOPE00'') = None
   \<and> put_rooms_B ''NOPE00'' (Some (JString ''second'')) (startServer_B no_store [])
      = ((200, Success), startServer_B no_store [])"
  by (simp add: put_rooms_A_def put_rooms_B_def Room_findOneAndUpdate_def startServer_A_def
      startServer_B_def with_store_def no_store_def truthy_def client_error_def)

theorem missing_code_read_fails_update_succeeds_witness:
  "connection_readyState (startServer_A with_store ([] :: json room list)) = 1
   \<and> \<not> list_ex (\<lambda>r. code r = Some ''NOPE00'') (db (startServer_A with_store ([] :: json room list)))
   \<and> get_rooms_A ''NOPE00'' (startServer_A with_store ([] :: json room list))
      = ((404, Error ''Room not found''), startServer_A with_store [])
   \<and> put_rooms_A 300 ''NOPE00'' (Some (JString ''second'')) (startServer_A with_store [])
      = ((200, Success), startServer_A with_store [])
   \<and> connection_readyState (startServer_B no_store ([] :: json room list)) \<noteq> 1
   \<and> localRooms (startServer_B no_store ([] :: json room list)) (Some ''NOPE00'') = None
   \<and> get_rooms_B ''NOPE00'' (startServer_B no_store ([] :: json room list))
      = ((404, Error ''Room not found''), startServer_B no_store [])
   \<and> put_rooms_B ''NOPE00'' (Some (JString ''second'')) (startServer_B no_store [])
      = ((200, Success), startServer_B no_store [])"
proof -
  have a: "connection_readyState (startServer_A with_store ([] :: json room list)) = 1
      \<and> \<not> list_ex (\<lambda>r. code r = Some ''NOPE00'') (db (startServer_A with_store ([] :: json room list)))"
    by (simp add: startServer_A_def with_store_def truthy_def)
  have b: "connection_readyState (startServer_B no_store ([] :: json room list)) \<noteq> 1
      \<and> localRooms (startServer_B no_store ([] :: json room list)) (Some ''NOPE00'') = None"
    by (simp add: startServer_B_def no_store_def truthy_def)
  from a b
    missing_code_read_fails_update_succeeds [of "startServer_A with_store ([] :: json room list)"
      "''NOPE00''" 300 "Some (JString ''second'')"]
    missing_code_read_fails_update_succeeds [of "startServer_B no_store ([] :: json room list)"
      "''NOPE00''" 300 "Some (JString ''second'')"]
  show ?thesis by blast
qed

subsection \<open>The store is unreachable\<close>

lemma startServer_B_unreachable:
  assumes "\<not> truthy (MONGODB_URI e) \<or> \<not> connect_resolves e"
  shows "connection_readyState (startServer_B e stored) \<noteq> 1"
    and "''MONGODB_URI not found. Using local memory fallback for testing.''
           \<in> set (console (startServer_B e stored))
         \<or> ''MongoDB connection error:'' \<in> set (console (startServer_B e stored))"
  using assms by (auto simp: startServer_B_def)

lemma startServer_B_fresh:
  "localRooms (startServer_B e stored) = Map.empty" and "db (startServer_B e stored) = stored"
  by (simp_all add: startServer_B_def)

lemma body_fields: "\<lparr>code = code b, mode = mode b, data = data b\<rparr> = b"
  by simp

lemma fallback_create:
  assumes "connection_readyState st \<noteq> 1"
  shows "post_rooms_B null now b st = ((200, Success), st\<lparr>localRooms := (localRooms st)(code b \<mapsto> b)\<rparr>)"
  using assms by (simp add: post_rooms_B_def body_fields)

lemma fallback_read:
  assumes "connection_readyState st \<noteq> 1" and "localRooms st (Some c) = Some r"
  shows "get_rooms_B c st = ((200, LocalRoom r), st)"
  using assms by (simp add: get_rooms_B_def)

lemma fallback_update:
  assumes "connection_readyState st \<noteq> 1" and "localRooms st (Some c) = Some r"
  shows "put_rooms_B c d st =
           ((200, Success), st\<lparr>localRooms := (localRooms st)(Some c \<mapsto> r\<lparr>data := d\<rparr>)\<rparr>)"
  using assms by (simp add: put_rooms_B_def)

lemma startServer_A_unreachable:
  assumes "\<not> truthy (MONGODB_URI e) \<or> \<not> connect_resolves e"
  shows "connection_readyState (startServer_A e stored) \<noteq> 1"
    and "''MONGODB_URI not found. Persistence will not work on Render free tier.''
           \<in> set (console (startServer_A e stored))
         \<or> ''MongoDB connection error:'' \<in> set (console (startServer_A e stored))"
  using assms by (auto simp: startServer_A_def)

text \<open>Variant A has no such map: while it is not connected its three routes answer 500.\<close>

lemma variant_A_has_no_fallback:
  assumes "connection_readyState st \<noteq> 1"
  shows "fst (post_rooms_A null now b st) = (500, Error ''Failed to create room'')
       \<and> get_rooms_A c st = ((500, Error ''Server error''), st)
       \<and> put_rooms_A now c d st = ((500, Error ''Failed to update room''), st)"
  using assms
  by (auto simp: post_rooms_A_def get_rooms_A_def put_rooms_A_def Room_save_def Room_findOne_def
      Room_findOneAndUpdate_def)

text \<open>
  C8, as stated, fails for the variant of the server without \<^verbatim>\<open>localRooms\<close> (lines 1-157,
  whose \<^verbatim>\<open>startServer\<close> the claim cites): started without \<^verbatim>\<open>MONGODB_URI\<close> it runs and has
  logged the warning, but it has no fallback, and creating, reading and updating the
  room \<^verbatim>\<open>AB12CD\<close> each answer status 500.
\<close>

theorem variant_A_fails_when_store_unreachable:
  "\<not> truthy (MONGODB_URI no_store)
   \<and> connection_readyState (startServer_A no_store ([] :: json room list)) = 0
   \<and> console (startServer_A no_store ([] :: json room list))
      = [''MONGODB_URI not found. Persistence will not work on Render free tier.'',
         ''Server running on http://localhost:3000'']
   \<and> fst (post_rooms_A JNull 100 room_AB (startServer_A no_store []))
      = (500, Error ''Failed to create room'')
   \<and> get_rooms_A ''AB12CD'' (startServer_A no_store ([] :: json room list))
      = ((500, Error ''Server error''), startServer_A no_store [])
   \<and> put_rooms_A 300 ''AB12CD'' (Some (JString ''second'')) (startServer_A no_store [])
      = ((500, Error ''Failed to update room''), startServer_A no_store [])"
proof -
  have down: "connection_readyState (startServer_A no_store ([] :: json room list)) \<noteq> 1"
    by (simp add: startServer_A_def no_store_def truthy_def)
  have start: "\<not> truthy (MONGODB_URI no_store)
      \<and> connection_readyState (startServer_A no_store ([] :: json room list)) = 0
      \<and> console (startServer_A no_store ([] :: json room list))
         = [''MONGODB_URI not found. Persistence will not work on Render free tier.'',
            ''Server running on http://localhost:3000'']"
    by (simp add: startServer_A_def no_store_def truthy_def)
  note routes = variant_A_has_no_fallback [OF down, where null = JNull and now = 100
      and b = room_AB and c = "''AB12CD''" and d = "Some (JString ''second'')"]
  note update = variant_A_has_no_fallback [OF down, where null = JNull and now = 300
      and b = room_AB and c = "''AB12CD''" and d = "Some (JString ''second'')"]
  from start routes update show ?thesis by simp
qed

text \<open>
  C8, amended. Let the store be unreachable at the start: no usable \<^verbatim>\<open>MONGODB_URI\<close>, or a
  \<^verbatim>\<open>connect\<close> that is rejected. Both variants still yield a running process, not
  connected, with the warning or the connection error on the console. In the variant
  with \<^verbatim>\<open>localRooms\<close> (B), in every state of a process that is not connected, creating a
  room succeeds, reading it back answers the room, updating it succeeds, and reading
  again answers the room with the new data, all without a change to the MongoDB
  collection; a process started afresh has an empty \<^verbatim>\<open>localRooms\<close>, whatever the earlier
  process held, and while it is not connected either, reading the code answers 404. In
  the variant without \<^verbatim>\<open>localRooms\<close> (A), a process that is not connected answers the three
  requests with status 500.
\<close>

theorem fallback_serves_rooms_when_store_unreachable:
  assumes "\<not> truthy (MONGODB_URI e) \<or> \<not> connect_resolves e" and "code b = Some c"
  shows "connection_readyState (startServer_B e stored) \<noteq> 1
       \<and> (''MONGODB_URI not found. Using local memory fallback for testing.''
             \<in> set (console (startServer_B e stored))
           \<or> ''MongoDB connection error:'' \<in> set (console (startServer_B e stored)))
       \<and> (\<forall>st. connection_readyState st \<noteq> 1 \<longrightarrow>
             fst (post_rooms_B null now b st) = (200, Success)
           \<and> fst (get_rooms_B c (snd (post_rooms_B null now b st))) = (200, LocalRoom b)
           \<and> fst (put_rooms_B c d (snd (post_rooms_B null now b st))) = (200, Success)
           \<and> fst (get_rooms_B c (snd (put_rooms_B c d (snd (post_rooms_B null now b st)))))
               = (200, LocalRoom (b\<lparr>data := d\<rparr>))
           \<and> db (snd (put_rooms_B c d (snd (post_rooms_B null now b st)))) = db st)
       \<and> localRooms (startServer_B e' stored') = Map.empty
       \<and> (connection_readyState (startServer_B e' stored') \<noteq> 1 \<longrightarrow>
             fst (get_rooms_B c (startServer_B e' stored')) = (404, Error ''Room not found''))
       \<and> connection_readyState (startServer_A e stored) \<noteq> 1
       \<and> (''MONGODB_URI not found. Persistence will not work on Render free tier.''
             \<in> set (console (startServer_A e stored))
           \<or> ''MongoDB connection error:'' \<in> set (console (startServer_A e stored)))
       \<and> (\<forall>st. connection_readyState st \<noteq> 1 \<longrightarrow>
             fst (post_rooms_A null now b st) = (500, Error ''Failed to create room'')
           \<and> get_rooms_A c st = ((500, Error ''Server error''), st)
           \<and> put_rooms_A now c d st = ((500, Error ''Failed to update room''), st))"
proof -
  have served: "fst (post_rooms_B null now b st) = (200, Success)
           \<and> fst (get_rooms_B c (snd (post_rooms_B null now b st))) = (200, LocalRoom b)
           \<and> fst (put_rooms_B c d (snd (post_rooms_B null now b st))) = (200, Success)
           \<and> fst (get_rooms_B c (snd (put_rooms_B c d (snd (post_rooms_B null now b st)))))
               = (200, LocalRoom (b\<lparr>data := d\<rparr>))
           \<and> db (snd (put_rooms_B c d (snd (post_rooms_B null now b st)))) = db st"
    if down: "connection_readyState st \<noteq> 1" for st :: "'a server"
  proof -
    let ?st1 = "st\<lparr>localRooms := (localRooms st)(code b \<mapsto> b)\<rparr>"
    let ?st2 = "?st1\<lparr>localRooms := (localRooms ?st1)(Some c \<mapsto> b\<lparr>data := d\<rparr>)\<rparr>"
    have create: "post_rooms_B null now b st = ((200, Success), ?st1)"
      using down by (rule fallback_create)
    have down1: "connection_readyState ?st1 \<noteq> 1" using down by simp
    have kept: "localRooms ?st1 (Some c) = Some b" using assms(2) by simp
    have read: "get_rooms_B c ?st1 = ((200, LocalRoom b), ?st1)"
      using down1 kept by (rule fallback_read)
    have update: "put_rooms_B c d ?st1 = ((200, Success), ?st2)"
      using down1 kept by (rule fallback_update)
    have down2: "connection_readyState ?st2 \<noteq> 1" using down by simp
    have kept2: "localRooms ?st2 (Some c) = Some (b\<lparr>data := d\<rparr>)" by simp
    have read2: "get_rooms_B c ?st2 = ((200, LocalRoom (b\<lparr>data := d\<rparr>)), ?st2)"
      using down2 kept2 by (rule fallback_read)
    show ?thesis
      unfolding create snd_conv read update read2 fst_conv by simp
  qed
  have fresh: "fst (get_rooms_B c (startServer_B e' stored')) = (404, Error ''Room not found'')"
    if "connection_readyState (startServer_B e' stored') \<noteq> 1"
    using that by (simp add: missing_fallback(1) startServer_B_fresh(1))
  have variant_B: "connection_readyState (startServer_B e stored) \<noteq> 1
       \<and> (''MONGODB_URI not found. Using local memory fallback for testing.''
             \<in> set (console (startServer_B e stored))
           \<or> ''MongoDB connection error:'' \<in> set (console (startServer_B e stored)))
       \<and> (\<forall>st. connection_readyState st \<noteq> 1 \<longrightarrow>
             fst (post_rooms_B null now b st) = (200, Success)
           \<and> fst (get_rooms_B c (snd (post_rooms_B null now b st))) = (200, LocalRoom b)
           \<and> fst (put_rooms_B c d (snd (post_rooms_B null now b st))) = (200, Success)
           \<and> fst (get_rooms_B c (snd (put_rooms_B c d (snd (post_rooms_B null now b st)))))
               = (200, LocalRoom (b\<lparr>data := d\<rparr>))
           \<and> db (snd (put_rooms_B c d (snd (post_rooms_B null now b st)))) = db st)
       \<and> localRooms (startServer_B e' stored') = Map.empty
       \<and> (connection_readyState (startServer_B e' stored') \<noteq> 1 \<longrightarrow>
             fst (get_rooms_B c (startServer_B e' stored')) = (404, Error ''Room not found''))"
    using served fresh startServer_B_unreachable [OF assms(1), of stored]
      startServer_B_fresh(1) [of e' stored']
    by blast
  have variant_A: "connection_readyState (startServer_A e stored) \<noteq> 1
       \<and> (''MONGODB_URI not found. Persistence will not work on Render free tier.''
             \<in> set (console (startServer_A e stored))
           \<or> ''MongoDB connection error:'' \<in> set (console (startServer_A e stored)))
       \<and> (\<forall>st. connection_readyState st \<noteq> 1 \<longrightarrow>
             fst (post_rooms_A null now b st) = (500, Error ''Failed to create room'')
           \<and> get_rooms_A c st = ((500, Error ''Server error''), st)
           \<and> put_rooms_A now c d st = ((500, Error ''Failed to update room''), st))"
    using startServer_A_unreachable [OF assms(1), of stored]
    by (simp add: variant_A_has_no_fallback)
  from variant_B variant_A show ?thesis by blast
qed

theorem fallback_serves_rooms_when_store_unreachable_witness:
  "\<not> truthy (MONGODB_URI no_store)
   \<and> code room_AB = Some ''AB12CD''
   \<and> connection_readyState (startServer_B no_store ([] :: json room list)) \<noteq> 1
   \<and> ''MONGODB_URI not found. Using local memory fallback for testing.''
        \<in> set (console (startServer_B no_store ([] :: json room list)))
   \<and> fst (post_rooms_B JNull 100 room_AB (startServer_B no_store [])) = (200, Success)
   \<and> fst (get_rooms_B ''AB12CD'' (snd (post_rooms_B JNull 100 room_AB (startServer_B no_store []))))
      = (200, LocalRoom room_AB)
   \<and> fst (put_rooms_B ''AB12CD'' (Some (JString ''second''))
            (snd (post_rooms_B JNull 100 room_AB (startServer_B no_store []))))
      = (200, Success)
   \<and> fst (get_rooms_B ''AB12CD''
            (snd (put_rooms_B ''AB12CD'' (Some (JString ''second''))
                    (snd (post_rooms_B JNull 100 room_AB (startServer_B no_store []))))))
      = (200, LocalRoom (room_AB\<lparr>data := Some (JString ''second'')\<rparr>))
   \<and> fst (get_rooms_B ''AB12CD'' (startServer_B no_store ([] :: json room list)))
      = (404, Error ''Room not found'')
   \<and> connection_readyState (startServer_A no_store ([] :: json room list)) \<noteq> 1
   \<and> fst (post_rooms_A JNull 100 room_AB (startServer_A no_store []))
      = (500, Error ''Failed to create room'')"
proof -
  have a: "\<not> truthy (MONGODB_URI no_store) \<or> \<not> connect_resolves no_store"
    by (simp add: no_store_def)
  have b: "code room_AB = Some ''AB12CD''"
    by (simp add: room_AB_def)
  have down: "connection_readyState (startServer_B no_store ([] :: json room list)) \<noteq> 1"
    by (simp add: startServer_B_def no_store_def truthy_def)
  have logged: "''MONGODB_URI not found. Using local memory fallback for testing.''
        \<in> set (console (startServer_B no_store ([] :: json room list)))"
    by (simp add: startServer_B_def no_store_def truthy_def)
  have down_A: "connection_readyState (startServer_A no_store ([] :: json room list)) \<noteq> 1"
    by (simp add: startServer_A_def no_store_def truthy_def)
  note inst = fallback_serves_rooms_when_store_unreachable [OF a b,
      where stored = "[] :: json room list" and null = JNull and now = 100
        and d = "Some (JString ''second'')" and e' = no_store
        and stored' = "[] :: json room list"]
  have none: "\<not> truthy (MONGODB_URI no_store)"
    by (simp add: no_store_def truthy_def)
  from none b down logged down_A inst show ?thesis by blast
qed

end
